theory Spec2Isabelle
  imports Main "HOL-Library.Multiset"
begin

chapter \<open>The model\<close>

section \<open>Local store (database.js)\<close>

text \<open>
  The store is an SQLite file with the tables \<open>chats\<close>, \<open>messages\<close>, \<open>contacts\<close>,
  \<open>settings\<close> and \<open>media\<close>.  A table is modelled as the list of its rows in insertion
  order, so that a duplicate row would be visible.  Nullable columns are options.
  The \<open>media\<close> table is written by no operation of database.js and is left out.
  A bound JavaScript parameter that is \<open>undefined\<close>, \<open>null\<close> or \<open>NaN\<close> reaches SQLite
  as NULL; such a parameter is \<open>None\<close> here.  \<open>strftime('%s','now')\<close> is the parameter
  \<open>now\<close> of the writing operations.
\<close>

record chat_row =
  c_jid :: string
  c_name :: "string option"
  c_last_message_id :: "string option"
  c_last_message_timestamp :: "int option"
  c_unread_count :: int
  c_is_archived :: bool
  c_created_at :: int
  c_updated_at :: int

record message_row =
  m_id :: string
  m_chat_jid :: string
  m_from_me :: bool
  m_message_type :: string
  m_content :: "string option"
  m_timestamp :: int
  m_status :: string
  m_reply_to_id :: "string option"
  m_created_at :: int

record contact_row =
  ct_jid :: string
  ct_name :: "string option"
  ct_phone_number :: "string option"
  ct_avatar_path :: "string option"
  ct_is_blocked :: bool
  ct_created_at :: int
  ct_updated_at :: int

record database =
  chats :: "chat_row list"
  messages :: "message_row list"
  contacts :: "contact_row list"
  settings :: "(string \<times> string) list"

datatype sqlite_error = ForeignKeyConstraint | NotNullConstraint

text \<open>\<open>errorHandler.database(error, operation)\<close>: the failure wrapped with the
  operation's name.\<close>

datatype store_error = DatabaseError string sqlite_error

text \<open>
  Deleting message rows (the REPLACE conflict resolution does it): with
  \<open>PRAGMA foreign_keys = ON\<close> a row whose \<open>reply_to_id\<close> names a deleted message
  gets NULL there (\<open>ON DELETE SET NULL\<close>).
\<close>

definition delete_messages :: "(message_row \<Rightarrow> bool) \<Rightarrow> message_row list \<Rightarrow> message_row list" where
  "delete_messages doomed ms =
     (let gone = map m_id (filter doomed ms)
      in map (\<lambda>m. if (case m_reply_to_id m of None \<Rightarrow> False | Some r \<Rightarrow> r \<in> set gone)
                     then m\<lparr>m_reply_to_id := None\<rparr> else m)
             (filter (\<lambda>m. \<not> doomed m) ms))"

text \<open>
  \<open>INSERT OR REPLACE INTO messages (id, chat_jid, from_me, message_type, content,
  timestamp, status) VALUES (...)\<close>.  The columns \<open>chat_jid\<close>, \<open>from_me\<close> and
  \<open>timestamp\<close> are NOT NULL; \<open>chat_jid\<close> must name a row of \<open>chats\<close>; a row with the
  same primary key is deleted first; \<open>reply_to_id\<close> and \<open>created_at\<close> take their
  defaults.  A failing statement changes nothing.
\<close>

definition insert_or_replace_message ::
  "database \<Rightarrow> int \<Rightarrow> string \<Rightarrow> string \<Rightarrow> bool option \<Rightarrow> string \<Rightarrow> string option \<Rightarrow> int option \<Rightarrow> string
     \<Rightarrow> sqlite_error + database" where
  "insert_or_replace_message db now ident chatJid fromMe messageType content timestamp status =
     (case (fromMe, timestamp) of
        (Some f, Some ts) \<Rightarrow>
          if chatJid \<in> set (map c_jid (chats db)) then
            Inr (db\<lparr>messages :=
                   delete_messages (\<lambda>m. m_id m = ident) (messages db) @
                   [\<lparr>m_id = ident, m_chat_jid = chatJid, m_from_me = f,
                     m_message_type = messageType, m_content = content, m_timestamp = ts,
                     m_status = status, m_reply_to_id = None, m_created_at = now\<rparr>]\<rparr>)
          else Inl ForeignKeyConstraint
      | _ \<Rightarrow> Inl NotNullConstraint)"

text \<open>\<open>UPDATE chats SET last_message_id = ?, last_message_timestamp = ?,
  updated_at = strftime('%s','now') WHERE jid = ?\<close>.\<close>

definition update_chat_last_message :: "database \<Rightarrow> int \<Rightarrow> string \<Rightarrow> int option \<Rightarrow> string \<Rightarrow> database" where
  "update_chat_last_message db now ident timestamp chatJid =
     db\<lparr>chats := map (\<lambda>c. if c_jid c = chatJid
                            then c\<lparr>c_last_message_id := Some ident,
                                   c_last_message_timestamp := timestamp,
                                   c_updated_at := now\<rparr>
                            else c) (chats db)\<rparr>"

text \<open>\<open>Database.saveMessage(id, chatJid, fromMe, content, timestamp, messageType,
  status)\<close>: the insert, then the update of the owning chat; a failure of the insert is
  rethrown wrapped and the update is not reached.  The backend passes an eighth
  argument, the sender's name, which this function does not read.\<close>

definition saveMessage ::
  "database \<Rightarrow> int \<Rightarrow> string \<Rightarrow> string \<Rightarrow> bool option \<Rightarrow> string option \<Rightarrow> int option \<Rightarrow> string \<Rightarrow> string
     \<Rightarrow> store_error + database" where
  "saveMessage db now ident chatJid fromMe content timestamp messageType status =
     (case insert_or_replace_message db now ident chatJid fromMe messageType content timestamp status of
        Inl e \<Rightarrow> Inl (DatabaseError ''saveMessage'' e)
      | Inr db1 \<Rightarrow> Inr (update_chat_last_message db1 now ident timestamp chatJid))"

text \<open>\<open>LIMIT ? OFFSET ?\<close> of SQLite: a negative limit is no limit, a negative
  offset is no offset.\<close>

definition sql_limit_offset :: "int \<Rightarrow> int \<Rightarrow> 'a list \<Rightarrow> 'a list" where
  "sql_limit_offset lim off xs =
     (let ys = (if off \<le> 0 then xs else drop (nat off) xs)
      in if lim < 0 then ys else take (nat lim) ys)"

text \<open>\<open>ORDER BY key DESC\<close>.  SQLite leaves the order of rows with equal keys
  open; the model fixes one such order.\<close>

definition order_by_desc :: "('a \<Rightarrow> int) \<Rightarrow> 'a list \<Rightarrow> 'a list" where
  "order_by_desc key xs = rev (sort_key key xs)"

text \<open>\<open>Database.getMessages(chatJid, limit = 50, offset = 0)\<close>: \<open>SELECT * FROM
  messages WHERE chat_jid = ? ORDER BY timestamp DESC LIMIT ? OFFSET ?\<close>, and the
  rows reversed.\<close>

definition getMessages :: "database \<Rightarrow> string \<Rightarrow> int \<Rightarrow> int \<Rightarrow> message_row list" where
  "getMessages db chatJid lim off =
     rev (sql_limit_offset lim off
            (order_by_desc m_timestamp (filter (\<lambda>m. m_chat_jid m = chatJid) (messages db))))"

text \<open>A store with two chats and no message, for the examples below.\<close>

definition example_chat :: "string \<Rightarrow> int \<Rightarrow> chat_row" where
  "example_chat jid t =
     \<lparr>c_jid = jid, c_name = Some jid, c_last_message_id = None,
      c_last_message_timestamp = None, c_unread_count = 0, c_is_archived = False,
      c_created_at = t, c_updated_at = t\<rparr>"

definition example_message :: "string \<Rightarrow> string \<Rightarrow> int \<Rightarrow> string \<Rightarrow> int \<Rightarrow> message_row" where
  "example_message ident jid ts status t =
     \<lparr>m_id = ident, m_chat_jid = jid, m_from_me = False, m_message_type = ''text'',
      m_content = Some ''hello'', m_timestamp = ts, m_status = status, m_reply_to_id = None,
      m_created_at = t\<rparr>"

definition example_db :: database where
  "example_db = \<lparr>chats = [example_chat ''alice'' 1, example_chat ''bob'' 2], messages = [],
                  contacts = [], settings = []\<rparr>"

section \<open>Display content of a message (backend.js)\<close>

text \<open>
  A message of the upstream library is a loosely typed JavaScript object.  Its payload
  \<open>msg.message\<close> is kept as a JavaScript value, so that every shape the code tests
  for, and every other one, is an input of the model.
\<close>

datatype jsval =
    JUndefined
  | JNull
  | JBool bool
  | JNum int
  | JStr string
  | JObj "(string \<times> jsval) list"

text \<open>JavaScript's truthiness, as \<open>if (v)\<close>, \<open>!v\<close> and \<open>v || w\<close> read it.\<close>

fun truthy :: "jsval \<Rightarrow> bool" where
  "truthy JUndefined = False"
| "truthy JNull = False"
| "truthy (JBool b) = b"
| "truthy (JNum n) = (n \<noteq> 0)"
| "truthy (JStr s) = (s \<noteq> [])"
| "truthy (JObj kvs) = True"

definition js_or :: "jsval \<Rightarrow> jsval \<Rightarrow> jsval" where
  "js_or a b = (if truthy a then a else b)"

text \<open>Property access \<open>v.k\<close> or \<open>v[k]\<close>.  The code modelled reads a property only of
  a value it has found truthy, where JavaScript does not throw; a property that is not
  there is \<open>undefined\<close>, and so is each of the properties read here on a primitive
  value.\<close>

fun get_prop :: "jsval \<Rightarrow> string \<Rightarrow> jsval" where
  "get_prop (JObj kvs) k = (case map_of kvs k of Some v \<Rightarrow> v | None \<Rightarrow> JUndefined)"
| "get_prop v k = JUndefined"

record wa_message =
  key_id :: string
  key_fromMe :: "bool option"
  message :: jsval
  messageTimestamp :: "int option"
  pushName :: "string option"

text \<open>\<open>getDisplayMessage(msg)\<close>; \<open>None\<close> is a call with \<open>undefined\<close>.\<close>

definition getDisplayMessage :: "wa_message option \<Rightarrow> jsval" where
  "getDisplayMessage msg =
     (case msg of
        None \<Rightarrow> JStr []
      | Some m \<Rightarrow>
          if \<not> truthy (message m) then JStr []
          else if truthy (get_prop (message m) ''conversation'') then get_prop (message m) ''conversation''
          else if truthy (get_prop (message m) ''extendedTextMessage'')
            then get_prop (get_prop (message m) ''extendedTextMessage'') ''text''
          else if truthy (get_prop (message m) ''imageMessage'')
            then js_or (get_prop (get_prop (message m) ''imageMessage'') ''caption'') (JStr ''[Image]'')
          else if truthy (get_prop (message m) ''videoMessage'')
            then js_or (get_prop (get_prop (message m) ''videoMessage'') ''caption'') (JStr ''[Video]'')
          else JStr ''[Unsupported Message]'')"

text \<open>The table \<open>messageTypes\<close> of \<open>getMessageType\<close>, in the order of its keys.\<close>

definition messageTypes :: "(string \<times> string) list" where
  "messageTypes =
     [(''conversation'', ''text''),
      (''extendedTextMessage'', ''text''),
      (''imageMessage'', ''image''),
      (''videoMessage'', ''video''),
      (''audioMessage'', ''audio''),
      (''documentMessage'', ''document''),
      (''stickerMessage'', ''sticker''),
      (''locationMessage'', ''location''),
      (''liveLocationMessage'', ''live_location''),
      (''contactMessage'', ''contact''),
      (''contactsArrayMessage'', ''contacts''),
      (''groupInviteMessage'', ''group_invite''),
      (''buttonsMessage'', ''buttons''),
      (''templateMessage'', ''template''),
      (''listMessage'', ''list''),
      (''reactionMessage'', ''reaction''),
      (''pollCreationMessage'', ''poll''),
      (''pollUpdateMessage'', ''poll_update'')]"

text \<open>The loop over the entries of the table: the display type of the first key whose
  value in the payload is truthy.\<close>

fun first_type :: "jsval \<Rightarrow> (string \<times> string) list \<Rightarrow> string" where
  "first_type payload [] = ''unknown''"
| "first_type payload ((k, displayType) # rest) =
     (if truthy (get_prop payload k) then displayType else first_type payload rest)"

definition getMessageType :: "wa_message \<Rightarrow> string" where
  "getMessageType msg =
     (if \<not> truthy (message msg) then ''text'' else first_type (message msg) messageTypes)"

text \<open>\<open>formatLastMessageContent(content, messageType)\<close>: the text of the chat-list
  preview, \<open>null\<close> for a message that is not text.\<close>

definition formatLastMessageContent :: "jsval \<Rightarrow> string \<Rightarrow> jsval" where
  "formatLastMessageContent content messageType =
     (if messageType = ''text'' then js_or content (JStr ''No messages yet'') else JNull)"


text \<open>An audio message: none of the four shapes.\<close>

definition example_audio :: wa_message where
  "example_audio =
     \<lparr>key_id = ''a1'', key_fromMe = Some False,
      message = JObj [(''audioMessage'', JObj [(''seconds'', JNum 3)])],
      messageTimestamp = Some 1700000000, pushName = Some ''Alice''\<rparr>"

section \<open>Listing the chats\<close>

text \<open>
  The row objects of \<open>Database.getChats\<close>.  The query selects the columns of
  \<open>chats\<close>, the content of the joined message as \<open>last_message_content\<close> and its
  timestamp as \<open>last_message_timestamp\<close>; the latter comes after the chat's own column
  of that name and replaces it in the row object.  The relay also reads the properties
  \<open>contact_name\<close>, \<open>contact_avatar_base64\<close>, \<open>contact_phone_number\<close>,
  \<open>avatar_base64\<close>, \<open>last_message_type\<close> and \<open>last_message_from\<close> of a row; the
  query selects none of them, so they are \<open>undefined\<close> (\<open>None\<close>) in its rows.
\<close>

record chat_list_row =
  r_jid :: string
  r_name :: "string option"
  r_last_message_id :: "string option"
  r_last_message_timestamp :: "int option"
  r_unread_count :: int
  r_is_archived :: bool
  r_created_at :: int
  r_updated_at :: int
  r_last_message_content :: "string option"
  r_contact_name :: "string option"
  r_contact_avatar_base64 :: "string option"
  r_contact_phone_number :: "string option"
  r_avatar_base64 :: "string option"
  r_last_message_type :: "string option"
  r_last_message_from :: "string option"

definition joined_row :: "chat_row \<Rightarrow> string option \<Rightarrow> int option \<Rightarrow> chat_list_row" where
  "joined_row c content timestamp =
     \<lparr>r_jid = c_jid c, r_name = c_name c, r_last_message_id = c_last_message_id c,
      r_last_message_timestamp = timestamp, r_unread_count = c_unread_count c,
      r_is_archived = c_is_archived c, r_created_at = c_created_at c,
      r_updated_at = c_updated_at c, r_last_message_content = content,
      r_contact_name = None, r_contact_avatar_base64 = None, r_contact_phone_number = None,
      r_avatar_base64 = None, r_last_message_type = None, r_last_message_from = None\<rparr>"

text \<open>\<open>chats c LEFT JOIN messages m ON c.last_message_id = m.id\<close>: one row for each
  message with that identifier, and one row with NULLs when there is none.\<close>

definition left_join_last_message :: "message_row list \<Rightarrow> chat_row \<Rightarrow> chat_list_row list" where
  "left_join_last_message ms c =
     (case filter (\<lambda>m. c_last_message_id c = Some (m_id m)) ms of
        [] \<Rightarrow> [joined_row c None None]
      | hits \<Rightarrow> map (\<lambda>m. joined_row c (m_content m) (Some (m_timestamp m))) hits)"

text \<open>\<open>Database.getChats(limit = 50)\<close>: \<open>SELECT c.*, m.content as
  last_message_content, m.timestamp as last_message_timestamp FROM chats c LEFT JOIN
  messages m ON c.last_message_id = m.id WHERE c.is_archived = FALSE ORDER BY
  c.updated_at DESC LIMIT ?\<close>.\<close>

definition getChats :: "database \<Rightarrow> int \<Rightarrow> chat_list_row list" where
  "getChats db lim =
     sql_limit_offset lim 0
       (order_by_desc r_updated_at
          (filter (\<lambda>r. \<not> r_is_archived r)
             (concat (map (left_join_last_message (messages db)) (chats db)))))"

text \<open>The rows of that query before \<open>ORDER BY\<close> and \<open>LIMIT\<close>: \<open>FROM chats c LEFT
  JOIN messages m ON c.last_message_id = m.id WHERE c.is_archived = FALSE\<close>.\<close>

definition chat_rows :: "database \<Rightarrow> chat_list_row list" where
  "chat_rows db =
     filter (\<lambda>r. \<not> r_is_archived r)
       (concat (map (left_join_last_message (messages db)) (chats db)))"

text \<open>The stored message that a chat row's \<open>last_message_id\<close> names, if there is
  one.\<close>

definition last_message :: "database \<Rightarrow> chat_row \<Rightarrow> message_row option" where
  "last_message db c = find (\<lambda>m. c_last_message_id c = Some (m_id m)) (messages db)"

text \<open>The chat objects the relay sends, built from a row as \<open>handleGetInitialChats\<close>,
  \<open>loadInitialChats\<close> and \<open>refreshChatList\<close> do.\<close>

record chat_view =
  v_jid :: string
  v_name :: string
  v_lastMessage :: jsval
  v_timestamp :: "int option"
  v_lastMessageType :: string
  v_lastMessageFrom :: "string option"
  v_unreadCount :: int
  v_avatarBase64 :: "string option"
  v_chatAvatarBase64 :: "string option"
  v_phoneNumber :: "string option"

text \<open>\<open>a || b\<close> for a nullable string \<open>a\<close>: \<open>undefined\<close>, \<open>null\<close> and the empty
  string give \<open>b\<close>.\<close>

definition or_else :: "string option \<Rightarrow> string \<Rightarrow> string" where
  "or_else a b = (case a of None \<Rightarrow> b | Some s \<Rightarrow> if s = [] then b else s)"

definition truthy_text :: "string option \<Rightarrow> bool" where
  "truthy_text a = (case a of None \<Rightarrow> False | Some s \<Rightarrow> s \<noteq> [])"

definition js_of_text :: "string option \<Rightarrow> jsval" where
  "js_of_text a = (case a of None \<Rightarrow> JNull | Some s \<Rightarrow> JStr s)"

definition to_chat_view :: "chat_list_row \<Rightarrow> chat_view" where
  "to_chat_view chat =
     \<lparr>v_jid = r_jid chat,
      v_name = or_else (r_contact_name chat) (or_else (r_name chat) (r_jid chat)),
      v_lastMessage = formatLastMessageContent (js_of_text (r_last_message_content chat))
                        (or_else (r_last_message_type chat) ''text''),
      v_timestamp = r_last_message_timestamp chat,
      v_lastMessageType = or_else (r_last_message_type chat) ''text'',
      v_lastMessageFrom = r_last_message_from chat,
      v_unreadCount = r_unread_count chat,
      v_avatarBase64 = r_contact_avatar_base64 chat,
      v_chatAvatarBase64 = r_avatar_base64 chat,
      v_phoneNumber = r_contact_phone_number chat\<rparr>"

text \<open>A store in which the chat written last holds the older message.\<close>

definition example_two_chats :: database where
  "example_two_chats =
     \<lparr>chats = [(example_chat ''alice'' 1)\<lparr>c_last_message_id := Some ''m1'',
                   c_last_message_timestamp := Some 2000, c_updated_at := 10\<rparr>,
               (example_chat ''bob'' 2)\<lparr>c_last_message_id := Some ''b1'',
                   c_last_message_timestamp := Some 1000, c_updated_at := 20\<rparr>],
      messages = [example_message ''m1'' ''alice'' 2000 ''received'' 10,
                  example_message ''b1'' ''bob'' 1000 ''received'' 20],
      contacts = [], settings = []\<rparr>"

text \<open>The same store with a third chat, archived, without a message and written
  last of all.\<close>

definition example_three_chats :: database where
  "example_three_chats =
     example_two_chats\<lparr>chats := chats example_two_chats @
        [(example_chat ''carol'' 3)\<lparr>c_is_archived := True, c_updated_at := 30\<rparr>]\<rparr>"

section \<open>Further store operations used by the backend\<close>

text \<open>
  \<open>Database.saveChat(jid, name, lastMessageId, timestamp)\<close>: \<open>INSERT OR REPLACE INTO
  chats (jid, name, last_message_id, last_message_timestamp, updated_at)\<close>.  A row with
  the same \<open>jid\<close> is deleted first, and with it (\<open>ON DELETE CASCADE\<close>) the messages of
  that chat; the other columns of the new row take their defaults.  The backend passes
  three more arguments, which this function does not read.
\<close>

definition saveChat :: "database \<Rightarrow> int \<Rightarrow> string \<Rightarrow> string option \<Rightarrow> string option \<Rightarrow> int option \<Rightarrow> database" where
  "saveChat db now jid name lastMessageId timestamp =
     db\<lparr>chats := filter (\<lambda>c. c_jid c \<noteq> jid) (chats db) @
                 [\<lparr>c_jid = jid, c_name = name, c_last_message_id = lastMessageId,
                   c_last_message_timestamp = timestamp, c_unread_count = 0,
                   c_is_archived = False, c_created_at = now, c_updated_at = now\<rparr>],
        messages := (if jid \<in> set (map c_jid (chats db))
                     then delete_messages (\<lambda>m. m_chat_jid m = jid) (messages db)
                     else messages db)\<rparr>"

text \<open>\<open>Database.saveContact(jid, name, phoneNumber = null)\<close>: \<open>INSERT OR REPLACE INTO
  contacts (jid, name, phone_number, updated_at)\<close>.\<close>

definition saveContact :: "database \<Rightarrow> int \<Rightarrow> string \<Rightarrow> string option \<Rightarrow> string option \<Rightarrow> database" where
  "saveContact db now jid name phoneNumber =
     db\<lparr>contacts := filter (\<lambda>c. ct_jid c \<noteq> jid) (contacts db) @
                    [\<lparr>ct_jid = jid, ct_name = name, ct_phone_number = phoneNumber,
                      ct_avatar_path = None, ct_is_blocked = False, ct_created_at = now,
                      ct_updated_at = now\<rparr>]\<rparr>"

text \<open>
  Modelled from the spec: \<open>getMessage(id)\<close>, the existence check of the dedup rule,
  which the backend calls and this database.js does not define ("a message is
  considered already present if a row with its identifier exists").
\<close>

definition getMessage :: "database \<Rightarrow> string \<Rightarrow> message_row option" where
  "getMessage db ident = find (\<lambda>m. m_id m = ident) (messages db)"

section \<open>Relay protocol server (backend.js)\<close>

text \<open>
  The module's global variables are the fields of one state record (\<open>sock\<close> says
  whether the upstream socket has been created, \<open>store\<close> is the database).  Further
  fields record effects: \<open>wire\<close> lists what was written to a client socket (socket,
  event type, data), \<open>dropped\<close> the events \<open>sendToFrontend\<close> could not send and logged,
  \<open>timeouts\<close> the delays of the \<open>setTimeout\<close> calls that schedule a connect, and
  \<open>fetches\<close> the calls of \<open>sock.fetchMessageHistory\<close> (chat, count); \<open>credentials\<close>
  says whether the directory of the stored session exists.
\<close>

datatype event_data =
    EmptyData
  | ChatsData "chat_view list"
  | UnknownCommandData string string
  | StatusData string "string option"
  | ReasonData string
  | ErrorResponse string string
  | QrData string

record websocket =
  ws_id :: nat
  ws_open :: bool

record backend =
  clientSocket :: "websocket option"
  initialChatsPayload :: "chat_view list option"
  baileysConnectionStatus :: "string option"
  sock :: bool
  clientIsWaitingForChats :: bool
  reconnectAttempts :: nat
  store :: database
  credentials :: bool
  wire :: "(nat \<times> string \<times> event_data) list"
  dropped :: "(string \<times> event_data) list"
  timeouts :: "nat list"
  fetches :: "(string \<times> nat) list"

text \<open>\<open>sendToFrontend(type, data)\<close>: written to the client socket when there is one
  and it is open, logged and dropped otherwise.  A failure of the write itself is caught
  and logged; the write of the model does not fail.\<close>

definition sendToFrontend :: "string \<Rightarrow> event_data \<Rightarrow> backend \<Rightarrow> backend" where
  "sendToFrontend ty data st =
     (case clientSocket st of
        Some ws \<Rightarrow>
          if ws_open ws then st\<lparr>wire := wire st @ [(ws_id ws, ty, data)]\<rparr>
          else st\<lparr>dropped := dropped st @ [(ty, data)]\<rparr>
      | None \<Rightarrow> st\<lparr>dropped := dropped st @ [(ty, data)]\<rparr>)"

text \<open>\<open>handleWebSocketConnection(ws)\<close>, up to the registration of the socket's
  handlers, and the socket's \<open>close\<close> handler.\<close>

definition handleWebSocketConnection :: "websocket \<Rightarrow> backend \<Rightarrow> backend" where
  "handleWebSocketConnection ws st =
     (let st1 = st\<lparr>clientSocket := Some ws\<rparr>
      in if baileysConnectionStatus st1 = Some ''open''
         then sendToFrontend ''baileys_ready'' EmptyData st1
         else st1)"

definition on_close :: "backend \<Rightarrow> backend" where
  "on_close st = st\<lparr>clientSocket := None, clientIsWaitingForChats := False\<rparr>"

text \<open>\<open>handleGetInitialChats()\<close>; \<open>database.getChats()\<close> is called with its default
  limit 50.  Its \<open>catch\<close> block answers a failure of the query with an error event; the
  query of the model does not fail.\<close>

definition handleGetInitialChats :: "backend \<Rightarrow> backend" where
  "handleGetInitialChats st =
     (case initialChatsPayload st of
        Some payload \<Rightarrow> sendToFrontend ''initial_chats'' (ChatsData payload) st
      | None \<Rightarrow>
          (let dbChats = getChats (store st) 50
           in if length dbChats > 0
              then sendToFrontend ''initial_chats'' (ChatsData (map to_chat_view dbChats)) st
              else st\<lparr>clientIsWaitingForChats := True\<rparr>))"

text \<open>
  An inbound command, parsed: its \<open>type\<close> (\<open>None\<close> when the property is absent, which a
  template string prints as \<open>undefined\<close>) and its \<open>data\<close>.  The handlers of the commands
  that talk to the upstream library or to the service manager are parameters; each may
  throw.
\<close>

record command =
  cmd_type :: "string option"
  cmd_data :: jsval

datatype js_error = JsError string

record command_handlers =
  handleSendMessage :: "jsval \<Rightarrow> backend \<Rightarrow> js_error + backend"
  handleGetMessageHistory :: "jsval \<Rightarrow> backend \<Rightarrow> js_error + backend"
  handleTypingStart :: "jsval \<Rightarrow> backend \<Rightarrow> js_error + backend"
  handleTypingStop :: "jsval \<Rightarrow> backend \<Rightarrow> js_error + backend"
  handleHealthCheck :: "backend \<Rightarrow> js_error + backend"
  handleSyncContacts :: "backend \<Rightarrow> js_error + backend"
  handleGetContactInfo :: "jsval \<Rightarrow> backend \<Rightarrow> js_error + backend"

definition known_commands :: "string list" where
  "known_commands =
     [''get_initial_chats'', ''send_message'', ''get_message_history'', ''typing_start'',
      ''typing_stop'', ''health_check'', ''sync_contacts'', ''get_contact_info'']"

definition template_text :: "string option \<Rightarrow> string" where
  "template_text t = (case t of None \<Rightarrow> ''undefined'' | Some s \<Rightarrow> s)"

definition handleFrontendCommand :: "command_handlers \<Rightarrow> command \<Rightarrow> backend \<Rightarrow> js_error + backend" where
  "handleFrontendCommand hs parsedMessage st =
     (let ty = cmd_type parsedMessage; data = cmd_data parsedMessage
      in if ty = Some ''get_initial_chats'' then Inr (handleGetInitialChats st)
         else if ty = Some ''send_message'' then handleSendMessage hs data st
         else if ty = Some ''get_message_history'' then handleGetMessageHistory hs data st
         else if ty = Some ''typing_start'' then handleTypingStart hs data st
         else if ty = Some ''typing_stop'' then handleTypingStop hs data st
         else if ty = Some ''health_check'' then handleHealthCheck hs st
         else if ty = Some ''sync_contacts'' then handleSyncContacts hs st
         else if ty = Some ''get_contact_info'' then handleGetContactInfo hs data st
         else Inr (sendToFrontend ''error''
                     (UnknownCommandData ''unknown_command'' (''Unknown command: '' @ template_text ty))
                     st))"

text \<open>A backend with an open client socket and an open upstream connection.\<close>

definition example_backend :: backend where
  "example_backend =
     \<lparr>clientSocket = Some \<lparr>ws_id = 1, ws_open = True\<rparr>, initialChatsPayload = None,
      baileysConnectionStatus = Some ''open'', sock = True, clientIsWaitingForChats = False,
      reconnectAttempts = 0, store = example_db, credentials = True, wire = [], dropped = [],
      timeouts = [], fetches = []\<rparr>"

text \<open>Handlers that fail, to show that none of them is reached.\<close>

definition failing_handlers :: command_handlers where
  "failing_handlers =
     \<lparr>handleSendMessage = (\<lambda>data st. Inl (JsError ''send_message'')),
      handleGetMessageHistory = (\<lambda>data st. Inl (JsError ''get_message_history'')),
      handleTypingStart = (\<lambda>data st. Inl (JsError ''typing_start'')),
      handleTypingStop = (\<lambda>data st. Inl (JsError ''typing_stop'')),
      handleHealthCheck = (\<lambda>st. Inl (JsError ''health_check'')),
      handleSyncContacts = (\<lambda>st. Inl (JsError ''sync_contacts'')),
      handleGetContactInfo = (\<lambda>data st. Inl (JsError ''get_contact_info''))\<rparr>"

subsection \<open>The snapshot of the chat list\<close>

text \<open>
  A chat of the upstream's history event.  \<open>handleHistorySet(item)\<close> builds the chat
  object of each, writes the chat, its contact and up to ten of its messages to the
  store, caches the chat objects as the snapshot, and sends the snapshot when the client
  is waiting for it.  \<open>now_ms\<close> is \<open>Date.now()\<close>.  The text bound to the \<open>content\<close> column
  is the display text when that is a string.
\<close>

record wa_chat =
  chat_id :: string
  chat_name :: "string option"
  chat_unreadCount :: "int option"
  chat_messages :: "wa_message list option"

definition first_message :: "wa_chat \<Rightarrow> wa_message option" where
  "first_message chat =
     (case chat_messages chat of None \<Rightarrow> None | Some [] \<Rightarrow> None | Some (m # _) \<Rightarrow> Some m)"

definition times_1000 :: "int option \<Rightarrow> int option" where
  "times_1000 t = map_option (\<lambda>n. n * 1000) t"

definition history_timestamp :: "int \<Rightarrow> wa_message option \<Rightarrow> int" where
  "history_timestamp now_ms lastMessage =
     (case lastMessage of
        None \<Rightarrow> now_ms
      | Some m \<Rightarrow> (case times_1000 (messageTimestamp m) of
                     None \<Rightarrow> now_ms
                   | Some t \<Rightarrow> if t = 0 then now_ms else t))"

definition history_chat_data :: "int \<Rightarrow> wa_chat \<Rightarrow> chat_view" where
  "history_chat_data now_ms chat =
     (let lastMessage = first_message chat;
          lastMessageType = (case lastMessage of None \<Rightarrow> ''text'' | Some m \<Rightarrow> getMessageType m);
          lastMessageContent = (case lastMessage of None \<Rightarrow> JNull | Some m \<Rightarrow> getDisplayMessage (Some m));
          lastMessageFrom = (case lastMessage of
                               None \<Rightarrow> None
                             | Some m \<Rightarrow> Some (if key_fromMe m = Some True then ''me'' else chat_id chat))
      in \<lparr>v_jid = chat_id chat,
          v_name = or_else (chat_name chat) (chat_id chat),
          v_lastMessage = formatLastMessageContent lastMessageContent lastMessageType,
          v_timestamp = Some (history_timestamp now_ms lastMessage),
          v_lastMessageType = lastMessageType,
          v_lastMessageFrom = lastMessageFrom,
          v_unreadCount = (case chat_unreadCount chat of None \<Rightarrow> 0 | Some n \<Rightarrow> n),
          v_avatarBase64 = None,
          v_chatAvatarBase64 = None,
          v_phoneNumber = None\<rparr>)"

definition sql_text :: "jsval \<Rightarrow> string option" where
  "sql_text v = (case v of JStr s \<Rightarrow> Some s | _ \<Rightarrow> None)"

text \<open>One pass of the loop over \<open>chat.messages.slice(0, 10)\<close>; a failing
  \<open>saveMessage\<close> is caught and logged.\<close>

definition save_history_message :: "int \<Rightarrow> wa_chat \<Rightarrow> wa_message \<Rightarrow> database \<Rightarrow> database" where
  "save_history_message now_ms chat msg db =
     (let messageContent = getDisplayMessage (Some msg)
      in if truthy messageContent \<and> key_id msg \<noteq> []
         then (case saveMessage db (now_ms div 1000) (key_id msg) (chat_id chat)
                      (Some (key_fromMe msg = Some True)) (sql_text messageContent)
                      (times_1000 (messageTimestamp msg)) ''text'' ''received'' of
                 Inl e \<Rightarrow> db
               | Inr db' \<Rightarrow> db')
         else db)"

definition save_history_chat :: "int \<Rightarrow> wa_chat \<Rightarrow> database \<Rightarrow> database" where
  "save_history_chat now_ms chat db =
     (let chatData = history_chat_data now_ms chat;
          db1 = saveChat db (now_ms div 1000) (v_jid chatData) (Some (v_name chatData))
                  (map_option key_id (first_message chat)) (v_timestamp chatData);
          db2 = (if truthy_text (chat_name chat) \<and> chat_name chat \<noteq> Some (chat_id chat)
                 then saveContact db1 (now_ms div 1000) (chat_id chat) (chat_name chat) None
                 else db1)
      in case chat_messages chat of
           None \<Rightarrow> db2
         | Some ms \<Rightarrow> fold (save_history_message now_ms chat) (take 10 ms) db2)"

definition handleHistorySet :: "int \<Rightarrow> wa_chat list \<Rightarrow> backend \<Rightarrow> backend" where
  "handleHistorySet now_ms item_chats st =
     (let chats = map (history_chat_data now_ms) item_chats;
          st1 = st\<lparr>store := fold (save_history_chat now_ms) item_chats (store st),
                   initialChatsPayload := Some chats\<rparr>
      in if clientIsWaitingForChats st1
         then (sendToFrontend ''initial_chats'' (ChatsData chats) st1)\<lparr>clientIsWaitingForChats := False\<rparr>
         else st1)"

text \<open>\<open>loadInitialChats()\<close>, up to the start of the background synchronisation of
  the contacts, which runs on its own and writes contacts only.\<close>

definition loadInitialChats :: "backend \<Rightarrow> backend" where
  "loadInitialChats st =
     (let dbChats = getChats (store st) 50
      in if length dbChats > 0
         then (let chats = map to_chat_view dbChats;
                   st1 = st\<lparr>initialChatsPayload := Some chats\<rparr>
               in if clientIsWaitingForChats st1
                  then (sendToFrontend ''initial_chats'' (ChatsData chats) st1)
                         \<lparr>clientIsWaitingForChats := False\<rparr>
                  else st1)
         else st)"

text \<open>A chat object for a cached snapshot.\<close>

definition example_view :: chat_view where
  "example_view =
     \<lparr>v_jid = ''alice'', v_name = ''Alice'', v_lastMessage = JStr ''hello'', v_timestamp = Some 1000,
      v_lastMessageType = ''text'', v_lastMessageFrom = Some ''alice'', v_unreadCount = 0,
      v_avatarBase64 = None, v_chatAvatarBase64 = None, v_phoneNumber = None\<rparr>"

section \<open>Connection manager (backend.js)\<close>

definition MAX_RECONNECT_ATTEMPTS :: nat where
  "MAX_RECONNECT_ATTEMPTS = 5"

definition RECONNECT_DELAY :: nat where
  "RECONNECT_DELAY = 5000"

text \<open>\<open>DisconnectReason.loggedOut\<close> of the upstream library.\<close>

definition loggedOut :: int where
  "loggedOut = 401"

text \<open>
  \<open>connectToWhatsApp()\<close>.  The parameter says whether the \<open>try\<close> block (loading the
  stored session, asking for the protocol version, creating the socket and registering
  its handlers) runs to its end or throws; in the second case the \<open>catch\<close> block applies
  the retry policy.
\<close>

definition connectToWhatsApp :: "bool \<Rightarrow> backend \<Rightarrow> backend" where
  "connectToWhatsApp socket_created st =
     (if socket_created then st\<lparr>sock := True\<rparr>
      else if reconnectAttempts st < MAX_RECONNECT_ATTEMPTS
        then st\<lparr>reconnectAttempts := reconnectAttempts st + 1,
                 timeouts := timeouts st @ [RECONNECT_DELAY]\<rparr>
      else sendToFrontend ''connection_failed'' (ErrorResponse ''baileys'' ''connection initialization'') st)"

text \<open>
  An update of the upstream connection: \<open>connection\<close>, the status code of
  \<open>lastDisconnect.error\<close> when that is a Boom error, its message, and \<open>qr\<close>.
\<close>

record connection_update =
  connection :: "string option"
  disconnect_status :: "int option"
  disconnect_message :: "string option"
  qr :: "string option"

text \<open>
  \<open>handleConnectionUpdate(update)\<close>.  Parameters: \<open>qr_image\<close>, the data URL that
  \<open>qrcode.toDataURL\<close> hands to its callback (\<open>None\<close> for an error; the callback's event is
  written here at the point of the call); \<open>rm_ok\<close>, whether \<open>fs.rm\<close> of the stored
  session succeeds (a failure is caught and logged); \<open>on_open\<close>, the synchronisation run
  started when the connection opens.
\<close>

definition handleConnectionUpdate ::
  "(string \<Rightarrow> string option) \<Rightarrow> bool \<Rightarrow> (backend \<Rightarrow> backend) \<Rightarrow> connection_update \<Rightarrow> backend \<Rightarrow> backend" where
  "handleConnectionUpdate qr_image rm_ok on_open update st =
     (let st0 = (if truthy_text (qr update)
                 then (case qr_image (or_else (qr update) []) of
                         None \<Rightarrow> st
                       | Some url \<Rightarrow> sendToFrontend ''qr'' (QrData url) st)
                 else st);
          st1 = st0\<lparr>baileysConnectionStatus := connection update\<rparr>
      in if connection update = Some ''close'' then
           (let st2 = st1\<lparr>initialChatsPayload := None\<rparr>;
                statusCode = (case disconnect_status update of Some c \<Rightarrow> c | None \<Rightarrow> 500);
                reason = or_else (disconnect_message update) ''Unknown reason'';
                st3 = sendToFrontend ''connection_status'' (StatusData ''closed'' (Some reason)) st2
            in if statusCode = loggedOut then
                 st3\<lparr>credentials := (if rm_ok then False else credentials st3),
                     reconnectAttempts := 0,
                     timeouts := timeouts st3 @ [2000]\<rparr>
               else if reconnectAttempts st3 < MAX_RECONNECT_ATTEMPTS then
                 st3\<lparr>reconnectAttempts := reconnectAttempts st3 + 1,
                     timeouts := timeouts st3 @ [RECONNECT_DELAY]\<rparr>
               else sendToFrontend ''connection_failed''
                      (ReasonData ''Max reconnection attempts reached'') st3)
         else if connection update = Some ''open'' then
           on_open
             (sendToFrontend ''connection_status'' (StatusData ''open'' None)
                (sendToFrontend ''baileys_ready'' EmptyData (st1\<lparr>reconnectAttempts := 0\<rparr>)))
         else if connection update = Some ''connecting'' then
           sendToFrontend ''connection_status'' (StatusData ''connecting'' None) st1
         else st1)"

text \<open>The events handed to \<open>sendToFrontend\<close> so far, sent or dropped.\<close>

definition emitted :: "backend \<Rightarrow> (string \<times> event_data) set" where
  "emitted st = set (map snd (wire st)) \<union> set (dropped st)"

text \<open>The state of the module when it is loaded.\<close>

definition initial_backend :: backend where
  "initial_backend =
     \<lparr>clientSocket = None, initialChatsPayload = None, baileysConnectionStatus = Some ''closed'',
      sock = False, clientIsWaitingForChats = False, reconnectAttempts = 0,
      store = \<lparr>chats = [], messages = [], contacts = [], settings = []\<rparr>, credentials = True,
      wire = [], dropped = [], timeouts = [], fetches = []\<rparr>"

text \<open>The update of a close whose cause is a logout.\<close>

definition logout_update :: connection_update where
  "logout_update =
     \<lparr>connection = Some ''close'', disconnect_status = Some 401,
      disconnect_message = Some ''Connection Failure'', qr = None\<rparr>"

section \<open>Sync engine (backend.js)\<close>

text \<open>
  The upstream's \<open>sock.fetchMessageHistory(jid, count)\<close> is an oracle: what the call
  answers may depend on how many calls were made before it, and it may throw, answer
  nothing (\<open>null\<close> or \<open>undefined\<close>) or answer a list of messages.
\<close>

datatype fetch_result = FetchThrows | FetchNothing | FetchMessages "wa_message list"

type_synonym upstream = "nat \<Rightarrow> string \<Rightarrow> nat \<Rightarrow> fetch_result"

definition batchSize :: nat where
  "batchSize = 50"

text \<open>
  The body of the loop over the messages of a batch in \<open>downloadMessageHistory\<close>, on the
  count of saved messages and the store.  A message whose identifier has a row is
  skipped; a failing \<open>saveMessage\<close> is caught and logged; \<open>downloadMessageMedia\<close>, called
  for a saved message that is not text, catches its own failures and writes the media
  table only.
\<close>

definition save_downloaded_message :: "int \<Rightarrow> string \<Rightarrow> wa_message \<Rightarrow> nat \<times> database \<Rightarrow> nat \<times> database" where
  "save_downloaded_message now jid msg acc =
     (case acc of (batchSavedCount, db) \<Rightarrow>
        (case getMessage db (key_id msg) of
           Some existingMessage \<Rightarrow> (batchSavedCount, db)
         | None \<Rightarrow>
             (let messageContent = getDisplayMessage (Some msg);
                  messageType = getMessageType msg
              in if truthy messageContent \<or> messageType \<noteq> ''text''
                 then (case saveMessage db now (key_id msg) jid (key_fromMe msg)
                              (sql_text (js_or messageContent (JStr [])))
                              (times_1000 (messageTimestamp msg)) messageType ''received'' of
                         Inl e \<Rightarrow> (batchSavedCount, db)
                       | Inr db' \<Rightarrow> (batchSavedCount + 1, db'))
                 else (batchSavedCount, db))))"

text \<open>The \<open>while\<close> loop of \<open>downloadMessageHistory\<close>; the result is
  \<open>totalSavedCount\<close>.\<close>

function download_loop :: "upstream \<Rightarrow> int \<Rightarrow> string \<Rightarrow> nat \<Rightarrow> nat \<Rightarrow> backend \<Rightarrow> nat \<times> backend" where
  "download_loop up now jid remainingLimit totalSavedCount st =
     (if remainingLimit > 0 \<and> batchSize > 0 then
        (let currentBatchSize = min batchSize remainingLimit;
             st1 = st\<lparr>fetches := fetches st @ [(jid, currentBatchSize)]\<rparr>
         in case up (length (fetches st)) jid currentBatchSize of
              FetchThrows \<Rightarrow> (totalSavedCount, st1)
            | FetchNothing \<Rightarrow> (totalSavedCount, st1)
            | FetchMessages ms \<Rightarrow>
                if ms = [] then (totalSavedCount, st1)
                else
                  (let saved = fold (save_downloaded_message now jid) ms (0, store st1);
                       st2 = st1\<lparr>store := snd saved\<rparr>
                   in if length ms < currentBatchSize
                      then (totalSavedCount + fst saved, st2)
                      else download_loop up now jid (remainingLimit - currentBatchSize)
                             (totalSavedCount + fst saved) st2))
      else (totalSavedCount, st))"
  by pat_completeness auto

termination
  by (relation "measure (\<lambda>(up, now, jid, remainingLimit, totalSavedCount, st). remainingLimit)") auto

declare download_loop.simps [simp del]

text \<open>\<open>downloadMessageHistory(jid, limit)\<close>, and the call of the first sync for a
  chat, \<open>downloadMessageHistory(jid, 500)\<close> in \<open>performComprehensiveDataDownload\<close>.\<close>

definition downloadMessageHistory :: "upstream \<Rightarrow> int \<Rightarrow> string \<Rightarrow> nat \<Rightarrow> backend \<Rightarrow> nat \<times> backend" where
  "downloadMessageHistory up now jid limit st =
     (if \<not> sock st \<or> baileysConnectionStatus st \<noteq> Some ''open'' then (0, st)
      else download_loop up now jid limit 0 st)"

definition first_sync_download :: "upstream \<Rightarrow> int \<Rightarrow> string \<Rightarrow> backend \<Rightarrow> nat \<times> backend" where
  "first_sync_download up now jid st = downloadMessageHistory up now jid 500 st"

text \<open>A fetch that lets the loop go on: a list of at least the requested number of
  messages.\<close>

definition full_batch :: "fetch_result \<Rightarrow> nat \<Rightarrow> bool" where
  "full_batch res n = (case res of FetchMessages ms \<Rightarrow> ms \<noteq> [] \<and> n \<le> length ms | _ \<Rightarrow> False)"

text \<open>The upstream honours the requested count.\<close>

definition honours_count :: "upstream \<Rightarrow> bool" where
  "honours_count up = (\<forall>i jid n ms. up i jid n = FetchMessages ms \<longrightarrow> length ms \<le> n)"

text \<open>The number of messages a fetch answered with.\<close>

definition fetched_count :: "fetch_result \<Rightarrow> nat" where
  "fetched_count res = (case res of FetchMessages ms \<Rightarrow> length ms | _ \<Rightarrow> 0)"

text \<open>
  The body of the loop over the fetched messages in \<open>syncChatMessages\<close>.  A message
  without a timestamp has the time \<open>NaN\<close>, which no comparison holds for, so it is not
  skipped by the first test.
\<close>

definition sync_message :: "int \<Rightarrow> string \<Rightarrow> int \<Rightarrow> wa_message \<Rightarrow> nat \<times> database \<Rightarrow> nat \<times> database" where
  "sync_message now jid lastMessageTime msg acc =
     (case acc of (newMessageCount, db) \<Rightarrow>
        (let messageTime = times_1000 (messageTimestamp msg)
         in if (case messageTime of None \<Rightarrow> False | Some t \<Rightarrow> t \<le> lastMessageTime)
            then (newMessageCount, db)
            else
              (let messageContent = getDisplayMessage (Some msg)
               in if truthy messageContent
                  then (case getMessage db (key_id msg) of
                          Some existingMessage \<Rightarrow> (newMessageCount, db)
                        | None \<Rightarrow>
                            (case saveMessage db now (key_id msg) jid (key_fromMe msg)
                                    (sql_text messageContent) messageTime ''text'' ''received'' of
                               Inl e \<Rightarrow> (newMessageCount, db)
                             | Inr db' \<Rightarrow> (newMessageCount + 1, db')))
                  else (newMessageCount, db))))"

text \<open>\<open>syncChatMessages(jid, lastSyncTime)\<close> at the time \<open>now_ms\<close> of \<open>Date.now()\<close>.
  An answer that is not a list makes the loop throw; the function then returns 0.\<close>

definition syncChatMessages :: "upstream \<Rightarrow> int \<Rightarrow> string \<Rightarrow> int \<Rightarrow> backend \<Rightarrow> nat \<times> backend" where
  "syncChatMessages up now_ms jid lastSyncTime st =
     (if \<not> sock st \<or> baileysConnectionStatus st \<noteq> Some ''open'' then (0, st)
      else
        (let recentMessages = getMessages (store st) jid 1 0;
             lastMessageTime = (case recentMessages of [] \<Rightarrow> lastSyncTime | m # _ \<Rightarrow> m_timestamp m);
             timeSinceLastCheck = now_ms - lastMessageTime
         in if timeSinceLastCheck < 60000 then (0, st)
            else
              (let st1 = st\<lparr>fetches := fetches st @ [(jid, 20)]\<rparr>
               in case up (length (fetches st)) jid 20 of
                    FetchThrows \<Rightarrow> (0, st1)
                  | FetchNothing \<Rightarrow> (0, st1)
                  | FetchMessages ms \<Rightarrow>
                      (let synced = fold (sync_message (now_ms div 1000) jid lastMessageTime) ms
                                      (0, store st1)
                       in (fst synced, st1\<lparr>store := snd synced\<rparr>)))))"

subsection \<open>Examples for the first sync\<close>

text \<open>A text message for each number; its identifier is that many letters and one more.\<close>

definition example_text_message :: "nat \<Rightarrow> wa_message" where
  "example_text_message i =
     \<lparr>key_id = replicate (Suc i) (CHR ''m''), key_fromMe = Some False,
      message = JObj [(''conversation'', JStr ''hello'')],
      messageTimestamp = Some (int i), pushName = None\<rparr>"

text \<open>An upstream that has three messages in every chat.\<close>

definition short_upstream :: upstream where
  "short_upstream i jid n = FetchMessages (map example_text_message [0..<min n 3])"

text \<open>Every message of a list has a row in the store.\<close>

definition all_exist :: "database \<Rightarrow> wa_message list \<Rightarrow> bool" where
  "all_exist db ms = list_all (\<lambda>m. getMessage db (key_id m) \<noteq> None) ms"

text \<open>An upstream that answers every fetch with as many messages as were asked for,
  always the same ones.\<close>

definition echo_upstream :: upstream where
  "echo_upstream i jid n = FetchMessages (map example_text_message [0..<n])"

text \<open>A connected backend whose store holds the first fifty of these messages.\<close>

definition synced_backend :: backend where
  "synced_backend =
     example_backend\<lparr>store := example_db\<lparr>messages :=
        map (\<lambda>i. example_message (key_id (example_text_message i)) ''alice'' (int i * 1000) ''received'' 0)
            [0..<50]\<rparr>\<rparr>"

subsection \<open>Examples for the incremental sync\<close>

text \<open>An upstream that has no message.\<close>

definition quiet_upstream :: upstream where
  "quiet_upstream i jid n = FetchMessages []"

text \<open>A connected backend with one chat, whose only message has the timestamp 1000.\<close>

definition old_chat_backend :: backend where
  "old_chat_backend =
     example_backend\<lparr>store := example_db\<lparr>
       chats := [(example_chat ''alice'' 1)\<lparr>c_last_message_id := Some ''m1'',
                    c_last_message_timestamp := Some 1000, c_updated_at := 1\<rparr>],
       messages := [example_message ''m1'' ''alice'' 1000 ''received'' 1]\<rparr>\<rparr>"

text \<open>The \<open>lastMessageTime\<close> of \<open>syncChatMessages\<close>: the timestamp of the newest stored
  message of the chat, and the last sync time when the chat has none.\<close>

definition high_water_mark :: "database \<Rightarrow> string \<Rightarrow> int \<Rightarrow> int" where
  "high_water_mark db jid lastSyncTime =
     (case getMessages db jid 1 0 of [] \<Rightarrow> lastSyncTime | m # _ \<Rightarrow> m_timestamp m)"

text \<open>An upstream with one message older and one newer than that timestamp.\<close>

definition news_upstream :: upstream where
  "news_upstream i jid n =
     FetchMessages [\<lparr>key_id = ''old'', key_fromMe = Some False,
                      message = JObj [(''conversation'', JStr ''before'')],
                      messageTimestamp = Some 1, pushName = None\<rparr>,
                    \<lparr>key_id = ''new'', key_fromMe = Some False,
                      message = JObj [(''conversation'', JStr ''after'')],
                      messageTimestamp = Some 9000, pushName = None\<rparr>]"

chapter \<open>Properties\<close>

section \<open>Local store (database.js)\<close>

subsection \<open>Upserting a message\<close>

lemma delete_messages_no_ident:
  "filter (\<lambda>m. m_id m = i) (delete_messages (\<lambda>m. m_id m = i) ms) = []"
  by (simp add: delete_messages_def Let_def filter_map comp_def filter_empty_conv)

lemma messages_update_chat_last_message [simp]:
  "messages (update_chat_last_message db now i ts c) = messages db"
  by (simp add: update_chat_last_message_def)

lemma saveMessage_InrD:
  assumes "saveMessage db now i c f x ts mt s = Inr db'"
  obtains fb tsv where "f = Some fb" and "ts = Some tsv" and "c \<in> set (map c_jid (chats db))"
    and "messages db' = delete_messages (\<lambda>m. m_id m = i) (messages db) @
           [\<lparr>m_id = i, m_chat_jid = c, m_from_me = fb, m_message_type = mt, m_content = x,
             m_timestamp = tsv, m_status = s, m_reply_to_id = None, m_created_at = now\<rparr>]"
    and "chats db' = map (\<lambda>r. if c_jid r = c
                            then r\<lparr>c_last_message_id := Some i, c_last_message_timestamp := ts,
                                   c_updated_at := now\<rparr>
                            else r) (chats db)"
  using assms
  by (auto simp: saveMessage_def insert_or_replace_message_def update_chat_last_message_def
           split: option.splits if_splits sum.splits)

lemma saveMessage_one_row:
  assumes "saveMessage db now i c f x ts mt s = Inr db'"
  shows "\<exists>fb tsv. f = Some fb \<and> ts = Some tsv \<and>
           filter (\<lambda>m. m_id m = i) (messages db') =
             [\<lparr>m_id = i, m_chat_jid = c, m_from_me = fb, m_message_type = mt, m_content = x,
               m_timestamp = tsv, m_status = s, m_reply_to_id = None, m_created_at = now\<rparr>]"
  using assms by (elim saveMessage_InrD) (simp add: delete_messages_no_ident)

lemma map_m_id_delete_messages:
  "map m_id (delete_messages P ms) = map m_id (filter (\<lambda>m. \<not> P m) ms)"
  by (simp add: delete_messages_def Let_def comp_def)

lemma saveMessage_distinct:
  assumes "saveMessage db now i c f x ts mt s = Inr db'"
    and "distinct (map m_id (messages db))"
  shows "distinct (map m_id (messages db'))"
proof -
  from assms(1) obtain r where
    ms: "messages db' = delete_messages (\<lambda>m. m_id m = i) (messages db) @ [r]" and r: "m_id r = i"
    by (elim saveMessage_InrD) simp
  have "distinct (map m_id (filter (\<lambda>m. m_id m \<noteq> i) (messages db)))"
    using assms(2) by (simp add: distinct_map_filter)
  then show ?thesis
    by (auto simp: ms r map_m_id_delete_messages)
qed

text \<open>
  Claim C1.  When two upserts of the same message identifier both succeed, whatever
  their other field values, the messages table afterwards holds exactly one row with
  that identifier, and it carries the field values of the second upsert; a table whose
  identifiers were pairwise different stays so.
\<close>

theorem saveMessage_twice_one_row:
  assumes "saveMessage db now1 i c1 f1 x1 ts1 mt1 s1 = Inr db1"
    and "saveMessage db1 now2 i c2 f2 x2 ts2 mt2 s2 = Inr db2"
  shows "(\<exists>fb tsv. f2 = Some fb \<and> ts2 = Some tsv \<and>
            filter (\<lambda>m. m_id m = i) (messages db2) =
              [\<lparr>m_id = i, m_chat_jid = c2, m_from_me = fb, m_message_type = mt2, m_content = x2,
                m_timestamp = tsv, m_status = s2, m_reply_to_id = None, m_created_at = now2\<rparr>]) \<and>
         (distinct (map m_id (messages db)) \<longrightarrow> distinct (map m_id (messages db2)))"
proof (intro conjI impI)
  show "\<exists>fb tsv. f2 = Some fb \<and> ts2 = Some tsv \<and>
           filter (\<lambda>m. m_id m = i) (messages db2) =
             [\<lparr>m_id = i, m_chat_jid = c2, m_from_me = fb, m_message_type = mt2, m_content = x2,
               m_timestamp = tsv, m_status = s2, m_reply_to_id = None, m_created_at = now2\<rparr>]"
    using assms(2) by (rule saveMessage_one_row)
  show "distinct (map m_id (messages db2))" if "distinct (map m_id (messages db))"
    using that assms saveMessage_distinct by blast
qed

lemmas example_defs =
  example_db_def example_chat_def example_message_def saveMessage_def
  insert_or_replace_message_def update_chat_last_message_def delete_messages_def

theorem saveMessage_twice_one_row_witness:
  "saveMessage example_db 10 ''m1'' ''alice'' (Some False) (Some ''hello'') (Some 1000) ''text'' ''sent''
     = Inr (example_db\<lparr>
         chats := [(example_chat ''alice'' 1)\<lparr>c_last_message_id := Some ''m1'',
                      c_last_message_timestamp := Some 1000, c_updated_at := 10\<rparr>,
                   example_chat ''bob'' 2],
         messages := [example_message ''m1'' ''alice'' 1000 ''sent'' 10]\<rparr>) \<and>
   saveMessage (example_db\<lparr>
         chats := [(example_chat ''alice'' 1)\<lparr>c_last_message_id := Some ''m1'',
                      c_last_message_timestamp := Some 1000, c_updated_at := 10\<rparr>,
                   example_chat ''bob'' 2],
         messages := [example_message ''m1'' ''alice'' 1000 ''sent'' 10]\<rparr>)
       20 ''m1'' ''alice'' (Some False) (Some ''hello'') (Some 1000) ''text'' ''read''
     = Inr (example_db\<lparr>
         chats := [(example_chat ''alice'' 1)\<lparr>c_last_message_id := Some ''m1'',
                      c_last_message_timestamp := Some 1000, c_updated_at := 20\<rparr>,
                   example_chat ''bob'' 2],
         messages := [example_message ''m1'' ''alice'' 1000 ''read'' 20]\<rparr>) \<and>
   filter (\<lambda>m. m_id m = ''m1'')
      (messages (example_db\<lparr>
         chats := [(example_chat ''alice'' 1)\<lparr>c_last_message_id := Some ''m1'',
                      c_last_message_timestamp := Some 1000, c_updated_at := 20\<rparr>,
                   example_chat ''bob'' 2],
         messages := [example_message ''m1'' ''alice'' 1000 ''read'' 20]\<rparr>))
     = [example_message ''m1'' ''alice'' 1000 ''read'' 20]"
  using saveMessage_twice_one_row
    [of example_db 10 "''m1''" "''alice''" "Some False" "Some ''hello''" "Some 1000" "''text''" "''sent''"
        "example_db\<lparr>
         chats := [(example_chat ''alice'' 1)\<lparr>c_last_message_id := Some ''m1'',
                      c_last_message_timestamp := Some 1000, c_updated_at := 10\<rparr>,
                   example_chat ''bob'' 2],
         messages := [example_message ''m1'' ''alice'' 1000 ''sent'' 10]\<rparr>"
        20 "''alice''" "Some False" "Some ''hello''" "Some 1000" "''text''" "''read''"
        "example_db\<lparr>
         chats := [(example_chat ''alice'' 1)\<lparr>c_last_message_id := Some ''m1'',
                      c_last_message_timestamp := Some 1000, c_updated_at := 20\<rparr>,
                   example_chat ''bob'' 2],
         messages := [example_message ''m1'' ''alice'' 1000 ''read'' 20]\<rparr>"]
  by (simp add: example_defs)

subsection \<open>The last-message pointer\<close>

text \<open>
  Claim C10.  After a successful upsert of a message, the owning chat has a row, and
  every row of that chat carries the identifier and the timestamp of the message just
  upserted as its last-message identifier and last-message timestamp.  Nothing is
  compared with the timestamp stored before, so an older message moves the pointer
  back in time.
\<close>

theorem saveMessage_last_message_pointer:
  assumes "saveMessage db now i c f x ts mt s = Inr db'"
  shows "(\<exists>r \<in> set (chats db'). c_jid r = c) \<and>
         (\<forall>r \<in> set (chats db'). c_jid r = c \<longrightarrow>
            c_last_message_id r = Some i \<and> c_last_message_timestamp r = ts \<and> ts \<noteq> None)"
proof -
  let ?upd = "\<lambda>r. if c_jid r = c
                   then r\<lparr>c_last_message_id := Some i, c_last_message_timestamp := ts,
                          c_updated_at := now\<rparr>
                   else r"
  from assms obtain tsv where ts: "ts = Some tsv" and c: "c \<in> set (map c_jid (chats db))"
    and chats: "chats db' = map ?upd (chats db)"
    by (elim saveMessage_InrD) simp
  from c obtain r0 where r0: "r0 \<in> set (chats db)" "c_jid r0 = c" by auto
  have "?upd r0 \<in> set (chats db')" using r0(1) by (simp add: chats)
  moreover have "c_jid (?upd r0) = c" using r0(2) by simp
  ultimately have ex: "\<exists>r \<in> set (chats db'). c_jid r = c" by blast
  have "c_last_message_id r = Some i \<and> c_last_message_timestamp r = ts \<and> ts \<noteq> None"
    if "r \<in> set (chats db')" "c_jid r = c" for r
  proof -
    from that(1) obtain q where q: "q \<in> set (chats db)" "r = ?upd q" by (auto simp: chats)
    show ?thesis
    proof (cases "c_jid q = c")
      case True
      then show ?thesis using q(2) ts by simp
    next
      case False
      then show ?thesis using q(2) that(2) by simp
    qed
  qed
  with ex show ?thesis by blast
qed

theorem saveMessage_last_message_pointer_witness:
  "saveMessage (example_db\<lparr>
         chats := [(example_chat ''alice'' 1)\<lparr>c_last_message_id := Some ''m1'',
                      c_last_message_timestamp := Some 2000, c_updated_at := 10\<rparr>],
         messages := [example_message ''m1'' ''alice'' 2000 ''sent'' 10]\<rparr>)
       20 ''m0'' ''alice'' (Some False) (Some ''hello'') (Some 1000) ''text'' ''received''
     = Inr (example_db\<lparr>
         chats := [(example_chat ''alice'' 1)\<lparr>c_last_message_id := Some ''m0'',
                      c_last_message_timestamp := Some 1000, c_updated_at := 20\<rparr>],
         messages := [example_message ''m1'' ''alice'' 2000 ''sent'' 10,
                      example_message ''m0'' ''alice'' 1000 ''received'' 20]\<rparr>) \<and>
   map c_last_message_timestamp (chats (example_db\<lparr>
         chats := [(example_chat ''alice'' 1)\<lparr>c_last_message_id := Some ''m0'',
                      c_last_message_timestamp := Some 1000, c_updated_at := 20\<rparr>],
         messages := [example_message ''m1'' ''alice'' 2000 ''sent'' 10,
                      example_message ''m0'' ''alice'' 1000 ''received'' 20]\<rparr>)) = [Some 1000]"
  using saveMessage_last_message_pointer
    [of "example_db\<lparr>
         chats := [(example_chat ''alice'' 1)\<lparr>c_last_message_id := Some ''m1'',
                      c_last_message_timestamp := Some 2000, c_updated_at := 10\<rparr>],
         messages := [example_message ''m1'' ''alice'' 2000 ''sent'' 10]\<rparr>"
        20 "''m0''" "''alice''" "Some False" "Some ''hello''" "Some 1000" "''text''" "''received''"
        "example_db\<lparr>
         chats := [(example_chat ''alice'' 1)\<lparr>c_last_message_id := Some ''m0'',
                      c_last_message_timestamp := Some 1000, c_updated_at := 20\<rparr>],
         messages := [example_message ''m1'' ''alice'' 2000 ''sent'' 10,
                      example_message ''m0'' ''alice'' 1000 ''received'' 20]\<rparr>"]
  by (simp add: example_defs)

subsection \<open>Listing the messages of a chat\<close>

lemma sorted_desc_order_by_desc: "sorted_wrt (\<lambda>a b. key b \<le> key a) (order_by_desc key xs)"
proof -
  have "sorted (map key (sort_key key xs))" by simp
  then have "sorted_wrt (\<lambda>a b. key a \<le> key b) (sort_key key xs)"
    by (simp add: sorted_wrt_map)
  then show ?thesis
    by (simp add: order_by_desc_def sorted_wrt_rev)
qed

lemma sorted_wrt_sql_limit_offset:
  "sorted_wrt P xs \<Longrightarrow> sorted_wrt P (sql_limit_offset lim off xs)"
  by (simp add: sql_limit_offset_def Let_def)

lemma set_sql_limit_offset: "set (sql_limit_offset lim off xs) \<subseteq> set xs"
  by (auto simp: sql_limit_offset_def Let_def dest: in_set_takeD in_set_dropD)

lemma mset_order_by_desc: "mset (order_by_desc key xs) = mset xs"
  by (simp add: order_by_desc_def)



section \<open>Display content of a message (backend.js)\<close>

subsection \<open>Classification and preview\<close>







text \<open>A message without a payload is outside the claim: \<open>getDisplayMessage\<close> answers
  the empty string, the type is \<open>text\<close> and the preview is the placeholder.\<close>

theorem no_payload_display:
  assumes "\<not> truthy (message msg)"
  shows "getDisplayMessage (Some msg) = JStr [] \<and> getMessageType msg = ''text'' \<and>
         formatLastMessageContent (getDisplayMessage (Some msg)) (getMessageType msg)
           = JStr ''No messages yet''"
  using assms
  by (simp add: getDisplayMessage_def getMessageType_def formatLastMessageContent_def js_or_def)

theorem no_payload_display_witness:
  "\<not> truthy (message (example_audio\<lparr>message := JUndefined\<rparr>)) \<and>
   getDisplayMessage (Some (example_audio\<lparr>message := JUndefined\<rparr>)) = JStr [] \<and>
   getMessageType (example_audio\<lparr>message := JUndefined\<rparr>) = ''text'' \<and>
   formatLastMessageContent (getDisplayMessage (Some (example_audio\<lparr>message := JUndefined\<rparr>)))
       (getMessageType (example_audio\<lparr>message := JUndefined\<rparr>))
     = JStr ''No messages yet''"
  using no_payload_display [of "example_audio\<lparr>message := JUndefined\<rparr>"]
  by (simp add: example_audio_def getDisplayMessage_def getMessageType_def
        formatLastMessageContent_def js_or_def)

section \<open>Listing the chats\<close>

subsection \<open>Order and content of the chat list\<close>

lemma set_order_by_desc [simp]: "set (order_by_desc key xs) = set xs"
  by (simp add: order_by_desc_def)

lemma left_join_last_message_rows:
  assumes "r \<in> set (left_join_last_message ms c)"
  shows "\<exists>content timestamp. r = joined_row c content timestamp \<and>
           (content = None \<and> timestamp = None \<and> (\<forall>m \<in> set ms. c_last_message_id c \<noteq> Some (m_id m)) \<or>
            (\<exists>m \<in> set ms. c_last_message_id c = Some (m_id m) \<and> content = m_content m \<and>
                           timestamp = Some (m_timestamp m)))"
proof (cases "filter (\<lambda>m. c_last_message_id c = Some (m_id m)) ms")
  case Nil
  then have "\<forall>m \<in> set ms. c_last_message_id c \<noteq> Some (m_id m)"
    by (simp add: filter_empty_conv)
  then show ?thesis
    using assms Nil by (simp add: left_join_last_message_def)
next
  case (Cons h hs)
  then have "r \<in> (\<lambda>m. joined_row c (m_content m) (Some (m_timestamp m))) `
                 set (filter (\<lambda>m. c_last_message_id c = Some (m_id m)) ms)"
    using assms by (simp add: left_join_last_message_def)
  then show ?thesis by auto
qed

lemma getChats_chat_rows:
  "getChats db lim = sql_limit_offset lim 0 (order_by_desc r_updated_at (chat_rows db))"
  by (simp add: getChats_def chat_rows_def)

lemma sql_limit_top:
  "\<exists>rest. sql_limit_offset lim 0 xs @ rest = xs \<and>
      (rest = [] \<or> 0 \<le> lim \<and> length (sql_limit_offset lim 0 xs) = nat lim)"
proof (cases "lim < 0")
  case True
  then show ?thesis by (simp add: sql_limit_offset_def)
next
  case False
  have "drop (nat lim) xs = [] \<or> length (take (nat lim) xs) = nat lim"
    by (cases "length xs \<le> nat lim") simp_all
  then have "sql_limit_offset lim 0 xs @ drop (nat lim) xs = xs \<and>
      (drop (nat lim) xs = [] \<or> 0 \<le> lim \<and> length (sql_limit_offset lim 0 xs) = nat lim)"
    using False by (simp add: sql_limit_offset_def)
  then show ?thesis by (rule exI)
qed

lemma length_sql_limit_exact:
  "length (sql_limit_offset lim 0 xs) = (if lim < 0 then length xs else min (nat lim) (length xs))"
  by (simp add: sql_limit_offset_def min_def)

lemma filter_unique_key:
  "distinct (map f xs) \<Longrightarrow>
     filter (\<lambda>m. k = Some (f m)) xs = (case find (\<lambda>m. k = Some (f m)) xs of None \<Rightarrow> [] | Some m \<Rightarrow> [m])"
proof (induction xs)
  case Nil
  then show ?case by simp
next
  case (Cons x xs)
  show ?case
  proof (cases "k = Some (f x)")
    case True
    from Cons.prems have "\<forall>m \<in> set xs. f x \<noteq> f m" by (auto simp: image_iff)
    then have "filter (\<lambda>m. k = Some (f m)) xs = []"
      using True by (simp add: filter_empty_conv)
    then show ?thesis using True by simp
  next
    case False
    then show ?thesis using Cons by simp
  qed
qed

lemma left_join_unique:
  assumes "distinct (map m_id ms)"
  shows "left_join_last_message ms c =
     [joined_row c (case find (\<lambda>m. c_last_message_id c = Some (m_id m)) ms of None \<Rightarrow> None | Some m \<Rightarrow> m_content m)
        (map_option m_timestamp (find (\<lambda>m. c_last_message_id c = Some (m_id m)) ms))]"
  using filter_unique_key [OF assms, of "c_last_message_id c"]
  by (simp add: left_join_last_message_def split: option.splits)

lemma concat_map_single: "concat (map (\<lambda>c. [g c]) cs) = map g cs"
  by (induction cs) simp_all

lemma chat_rows_unique:
  assumes "distinct (map m_id (messages db))"
  shows "chat_rows db =
     map (\<lambda>c. joined_row c (case last_message db c of None \<Rightarrow> None | Some m \<Rightarrow> m_content m)
                 (map_option m_timestamp (last_message db c)))
       (filter (\<lambda>c. \<not> c_is_archived c) (chats db))"
proof -
  have "left_join_last_message (messages db) =
     (\<lambda>c. [joined_row c (case last_message db c of None \<Rightarrow> None | Some m \<Rightarrow> m_content m)
                 (map_option m_timestamp (last_message db c))])"
    using left_join_unique [OF assms] by (simp add: last_message_def fun_eq_iff)
  then show ?thesis
    by (simp add: chat_rows_def concat_map_single filter_map comp_def joined_row_def)
qed

lemma getChats_rows:
  assumes "r \<in> set (getChats db lim)"
  shows "\<not> r_is_archived r \<and>
         (\<exists>c \<in> set (chats db). \<not> c_is_archived c \<and> r_jid r = c_jid c \<and> r_name r = c_name c \<and>
            r_unread_count r = c_unread_count c \<and> r_updated_at r = c_updated_at c \<and>
            r_last_message_id r = c_last_message_id c \<and>
            (r_last_message_content r = None \<and> r_last_message_timestamp r = None \<and>
               (\<forall>m \<in> set (messages db). c_last_message_id c \<noteq> Some (m_id m)) \<or>
             (\<exists>m \<in> set (messages db). c_last_message_id c = Some (m_id m) \<and>
                r_last_message_content r = m_content m \<and>
                r_last_message_timestamp r = Some (m_timestamp m))))"
proof -
  from assms have "r \<in> set (chat_rows db)"
    using set_sql_limit_offset [of lim 0] unfolding getChats_chat_rows by fastforce
  then obtain c0 where "\<not> r_is_archived r" "c0 \<in> set (chats db)"
    "r \<in> set (left_join_last_message (messages db) c0)"
    by (auto simp: chat_rows_def)
  then have "\<not> r_is_archived r \<and> (\<exists>c \<in> set (chats db). \<exists>content timestamp.
      r = joined_row c content timestamp \<and>
      (content = None \<and> timestamp = None \<and>
         (\<forall>m \<in> set (messages db). c_last_message_id c \<noteq> Some (m_id m)) \<or>
       (\<exists>m \<in> set (messages db). c_last_message_id c = Some (m_id m) \<and>
          content = m_content m \<and> timestamp = Some (m_timestamp m))))"
    using left_join_last_message_rows [of r "messages db" c0] by blast
  then obtain c content timestamp where
    c: "\<not> r_is_archived r" "c \<in> set (chats db)" "r = joined_row c content timestamp"
    "content = None \<and> timestamp = None \<and>
               (\<forall>m \<in> set (messages db). c_last_message_id c \<noteq> Some (m_id m)) \<or>
             (\<exists>m \<in> set (messages db). c_last_message_id c = Some (m_id m) \<and>
                content = m_content m \<and> timestamp = Some (m_timestamp m))"
    by blast
  have "\<not> c_is_archived c \<and> r_jid r = c_jid c \<and> r_name r = c_name c \<and>
            r_unread_count r = c_unread_count c \<and> r_updated_at r = c_updated_at c \<and>
            r_last_message_id r = c_last_message_id c \<and> r_last_message_content r = content \<and>
            r_last_message_timestamp r = timestamp"
    using c(1,3) by (simp add: joined_row_def)
  with c show ?thesis by blast
qed

text \<open>
  Claim C7, as amended.  For every limit, \<open>getChats\<close> returns the rows of the chats
  that are not archived, in descending order of \<open>updated_at\<close> (the time of the last
  write to the chat row, not the last message's timestamp).  The result is the head of
  a descending arrangement of all those rows and is cut only where the limit is
  reached: it has as many rows as the limit allows, and all of them when the limit is
  negative.  When the message identifiers are unique, as the primary key makes them,
  there is one row for each chat that is not archived, in the order of the table, with
  the chat's columns and the content and timestamp of the message its
  \<open>last_message_id\<close> names, both NULL where no such message is stored.  In the relay's
  mapping a non-empty \<open>contact_name\<close> of a row takes precedence over the chat's name.
\<close>

theorem getChats_order_and_join:
  "sorted_wrt (\<lambda>a b. r_updated_at b \<le> r_updated_at a) (getChats db lim) \<and>
   (\<exists>rest. mset (getChats db lim @ rest) = mset (chat_rows db) \<and>
      sorted_wrt (\<lambda>a b. r_updated_at b \<le> r_updated_at a) (getChats db lim @ rest) \<and>
      (rest = [] \<or> 0 \<le> lim \<and> length (getChats db lim) = nat lim)) \<and>
   length (getChats db lim)
     = (if lim < 0 then length (chat_rows db) else min (nat lim) (length (chat_rows db))) \<and>
   (distinct (map m_id (messages db)) \<longrightarrow>
      map (\<lambda>r. (r_jid r, r_name r, r_unread_count r, r_updated_at r, r_last_message_id r,
                  r_last_message_content r, r_last_message_timestamp r)) (chat_rows db)
        = map (\<lambda>c. (c_jid c, c_name c, c_unread_count c, c_updated_at c, c_last_message_id c,
                     (case last_message db c of None \<Rightarrow> None | Some m \<Rightarrow> m_content m),
                     map_option m_timestamp (last_message db c)))
            (filter (\<lambda>c. \<not> c_is_archived c) (chats db))) \<and>
   (\<forall>r \<in> set (getChats db lim).
      \<not> r_is_archived r \<and>
      (\<exists>c \<in> set (chats db). \<not> c_is_archived c \<and> r_jid r = c_jid c \<and> r_name r = c_name c \<and>
         r_unread_count r = c_unread_count c \<and> r_updated_at r = c_updated_at c \<and>
         r_last_message_id r = c_last_message_id c \<and>
         (r_last_message_content r = None \<and> r_last_message_timestamp r = None \<and>
            (\<forall>m \<in> set (messages db). c_last_message_id c \<noteq> Some (m_id m)) \<or>
          (\<exists>m \<in> set (messages db). c_last_message_id c = Some (m_id m) \<and>
             r_last_message_content r = m_content m \<and>
             r_last_message_timestamp r = Some (m_timestamp m))))) \<and>
   (\<forall>row n. r_contact_name row = Some n \<and> n \<noteq> [] \<longrightarrow> v_name (to_chat_view row) = n)"
proof -
  let ?desc = "order_by_desc r_updated_at (chat_rows db)"
  have sorted_desc: "sorted_wrt (\<lambda>a b. r_updated_at b \<le> r_updated_at a) ?desc"
    by (rule sorted_desc_order_by_desc)
  have "sorted_wrt (\<lambda>a b. r_updated_at b \<le> r_updated_at a) (getChats db lim)"
    unfolding getChats_def
    by (intro sorted_wrt_sql_limit_offset sorted_desc_order_by_desc)
  moreover have "\<exists>rest. mset (getChats db lim @ rest) = mset (chat_rows db) \<and>
      sorted_wrt (\<lambda>a b. r_updated_at b \<le> r_updated_at a) (getChats db lim @ rest) \<and>
      (rest = [] \<or> 0 \<le> lim \<and> length (getChats db lim) = nat lim)"
  proof -
    obtain rest where rest: "getChats db lim @ rest = ?desc"
      "rest = [] \<or> 0 \<le> lim \<and> length (getChats db lim) = nat lim"
      using sql_limit_top [of lim ?desc] unfolding getChats_chat_rows by blast
    have "mset (getChats db lim @ rest) = mset (chat_rows db)"
      unfolding rest(1) by (rule mset_order_by_desc)
    moreover have "sorted_wrt (\<lambda>a b. r_updated_at b \<le> r_updated_at a) (getChats db lim @ rest)"
      unfolding rest(1) by (rule sorted_desc)
    ultimately show ?thesis using rest(2) by blast
  qed
  moreover have "length (getChats db lim)
     = (if lim < 0 then length (chat_rows db) else min (nat lim) (length (chat_rows db)))"
  proof -
    have "length ?desc = length (chat_rows db)"
      by (simp add: order_by_desc_def)
    then show ?thesis
      unfolding getChats_chat_rows length_sql_limit_exact by simp
  qed
  moreover have "map (\<lambda>r. (r_jid r, r_name r, r_unread_count r, r_updated_at r, r_last_message_id r,
                  r_last_message_content r, r_last_message_timestamp r)) (chat_rows db)
        = map (\<lambda>c. (c_jid c, c_name c, c_unread_count c, c_updated_at c, c_last_message_id c,
                     (case last_message db c of None \<Rightarrow> None | Some m \<Rightarrow> m_content m),
                     map_option m_timestamp (last_message db c)))
            (filter (\<lambda>c. \<not> c_is_archived c) (chats db))"
    if "distinct (map m_id (messages db))"
    unfolding chat_rows_unique [OF that] by (simp add: joined_row_def comp_def)
  moreover have "\<not> r_is_archived r \<and>
      (\<exists>c \<in> set (chats db). \<not> c_is_archived c \<and> r_jid r = c_jid c \<and> r_name r = c_name c \<and>
         r_unread_count r = c_unread_count c \<and> r_updated_at r = c_updated_at c \<and>
         r_last_message_id r = c_last_message_id c \<and>
         (r_last_message_content r = None \<and> r_last_message_timestamp r = None \<and>
            (\<forall>m \<in> set (messages db). c_last_message_id c \<noteq> Some (m_id m)) \<or>
          (\<exists>m \<in> set (messages db). c_last_message_id c = Some (m_id m) \<and>
             r_last_message_content r = m_content m \<and>
             r_last_message_timestamp r = Some (m_timestamp m))))"
    if "r \<in> set (getChats db lim)" for r
    using that by (rule getChats_rows)
  moreover have "\<forall>row n. r_contact_name row = Some n \<and> n \<noteq> [] \<longrightarrow> v_name (to_chat_view row) = n"
    by (simp add: to_chat_view_def or_else_def)
  ultimately show ?thesis by blast
qed

lemmas getChats_defs =
  getChats_def chat_rows_def left_join_last_message_def joined_row_def sql_limit_offset_def
  order_by_desc_def to_chat_view_def or_else_def

theorem getChats_order_and_join_witness:
  "distinct (map m_id (messages example_three_chats)) \<and>
   map c_jid (chats example_three_chats) = [''alice'', ''bob'', ''carol''] \<and>
   map r_jid (chat_rows example_three_chats) = [''alice'', ''bob''] \<and>
   map r_jid (getChats example_three_chats 1) = [''bob''] \<and>
   map r_updated_at (getChats example_three_chats 1) = [20] \<and>
   map r_last_message_content (getChats example_three_chats 1) = [Some ''hello''] \<and>
   map r_last_message_timestamp (getChats example_three_chats 1) = [Some 1000] \<and>
   length (getChats example_three_chats 1) = nat 1 \<and>
   v_name (to_chat_view ((hd (getChats example_three_chats 1))\<lparr>r_contact_name := Some ''Bob B.''\<rparr>))
     = ''Bob B.''"
  using getChats_order_and_join [of example_three_chats 1]
  by (simp add: example_three_chats_def example_two_chats_def example_chat_def example_message_def
        getChats_defs)

text \<open>The claim as stated fails on this store: the two messages were upserted in the
  order of \<open>example_two_chats\<close>, and the list comes back with the last-message
  timestamps ascending.\<close>

theorem getChats_not_by_message_time:
  "saveMessage example_db 10
      ''m1'' ''alice'' (Some False) (Some ''hello'') (Some 2000) ''text'' ''received''
     = Inr (example_two_chats\<lparr>chats := [hd (chats example_two_chats), example_chat ''bob'' 2],
                                messages := [hd (messages example_two_chats)]\<rparr>) \<and>
   saveMessage (example_two_chats\<lparr>chats := [hd (chats example_two_chats), example_chat ''bob'' 2],
                                messages := [hd (messages example_two_chats)]\<rparr>) 20
      ''b1'' ''bob'' (Some False) (Some ''hello'') (Some 1000) ''text'' ''received''
     = Inr example_two_chats \<and>
   map r_jid (getChats example_two_chats 10) = [''bob'', ''alice''] \<and>
   map r_updated_at (getChats example_two_chats 10) = [20, 10] \<and>
   map r_last_message_timestamp (getChats example_two_chats 10) = [Some 1000, Some 2000]"
  by (simp add: example_two_chats_def example_defs getChats_defs)

section \<open>Relay protocol server (backend.js)\<close>

subsection \<open>Unknown commands\<close>

text \<open>
  Claim C9.  A command whose type is not one of the eight enumerated commands is
  answered with an \<open>error\<close> event whose data has the type \<open>unknown_command\<close> and names
  the command: the handler returns normally, the event is written to the open client
  socket, and nothing else of the state changes; in particular the client socket stays
  as it was.  No handler of another command runs.
\<close>

theorem unknown_command_error:
  assumes "cmd_type parsedMessage \<notin> Some ` set known_commands"
  shows "handleFrontendCommand hs parsedMessage st =
           Inr (sendToFrontend ''error''
                  (UnknownCommandData ''unknown_command''
                     (''Unknown command: '' @ template_text (cmd_type parsedMessage))) st) \<and>
         (\<forall>ws. clientSocket st = Some ws \<and> ws_open ws \<longrightarrow>
            sendToFrontend ''error''
                  (UnknownCommandData ''unknown_command''
                     (''Unknown command: '' @ template_text (cmd_type parsedMessage))) st
              = st\<lparr>wire := wire st @
                     [(ws_id ws, ''error'',
                       UnknownCommandData ''unknown_command''
                         (''Unknown command: '' @ template_text (cmd_type parsedMessage)))]\<rparr>)"
  using assms
  by (auto simp: handleFrontendCommand_def known_commands_def sendToFrontend_def Let_def)

theorem unknown_command_error_witness:
  "cmd_type \<lparr>cmd_type = Some ''delete_chat'', cmd_data = JNull\<rparr> \<notin> Some ` set known_commands \<and>
   handleFrontendCommand failing_handlers \<lparr>cmd_type = Some ''delete_chat'', cmd_data = JNull\<rparr>
       example_backend =
     Inr (example_backend\<lparr>wire :=
            [(1, ''error'', UnknownCommandData ''unknown_command'' ''Unknown command: delete_chat'')]\<rparr>)"
  using unknown_command_error
    [of "\<lparr>cmd_type = Some ''delete_chat'', cmd_data = JNull\<rparr>" failing_handlers example_backend]
  by (simp add: known_commands_def example_backend_def template_text_def)

subsection \<open>Sending to the client\<close>

text \<open>
  A send is best effort: with no client socket, or one that is not open, the event is
  dropped, nothing is written to any socket and nothing is queued; with an open client
  socket the event is written to it.
\<close>

theorem sendToFrontend_best_effort:
  "(clientSocket st = None \<or> (\<exists>ws. clientSocket st = Some ws \<and> \<not> ws_open ws) \<longrightarrow>
      sendToFrontend ty data st = st\<lparr>dropped := dropped st @ [(ty, data)]\<rparr>) \<and>
   (\<forall>ws. clientSocket st = Some ws \<and> ws_open ws \<longrightarrow>
      sendToFrontend ty data st = st\<lparr>wire := wire st @ [(ws_id ws, ty, data)]\<rparr>)"
  by (auto simp: sendToFrontend_def)

theorem sendToFrontend_best_effort_witness:
  "sendToFrontend ''sync_complete'' EmptyData initial_backend =
     initial_backend\<lparr>dropped := [(''sync_complete'', EmptyData)]\<rparr> \<and>
   sendToFrontend ''sync_complete'' EmptyData example_backend =
     example_backend\<lparr>wire := [(1, ''sync_complete'', EmptyData)]\<rparr>"
  using sendToFrontend_best_effort [of initial_backend "''sync_complete''" EmptyData]
    sendToFrontend_best_effort [of example_backend "''sync_complete''" EmptyData]
  by (simp add: initial_backend_def example_backend_def)

subsection \<open>Delivery of the snapshot\<close>

lemma wire_sendToFrontend_open:
  "clientSocket st = Some ws \<Longrightarrow> ws_open ws \<Longrightarrow>
   sendToFrontend ty data st = st\<lparr>wire := wire st @ [(ws_id ws, ty, data)]\<rparr>"
  by (simp add: sendToFrontend_def)

text \<open>
  Claim C6, as amended.  Connecting does not send the snapshot: the server records the
  client and sends it \<open>baileys_ready\<close> when the upstream connection is open, and
  nothing otherwise.  The snapshot is sent in answer to the command
  \<open>get_initial_chats\<close>: at once when a snapshot is cached; when none is cached and the
  store has no chat, the client-waiting flag is set and nothing is sent, and the
  snapshot that \<open>handleHistorySet\<close> or \<open>loadInitialChats\<close> produces next is sent to the
  open client, the flag being cleared.  (When none is cached and the store has chats,
  the command is answered with the list built from the store.)  The close of the client
  socket clears the client reference and the flag.
\<close>

theorem relay_snapshot_delivery:
  "clientSocket (handleWebSocketConnection ws st) = Some ws \<and>
   initialChatsPayload (handleWebSocketConnection ws st) = initialChatsPayload st \<and>
   clientIsWaitingForChats (handleWebSocketConnection ws st) = clientIsWaitingForChats st \<and>
   wire (handleWebSocketConnection ws st) =
     wire st @ (if baileysConnectionStatus st = Some ''open'' \<and> ws_open ws
                then [(ws_id ws, ''baileys_ready'', EmptyData)] else []) \<and>
   (cmd_type cmd = Some ''get_initial_chats'' \<longrightarrow>
      handleFrontendCommand hs cmd st = Inr (handleGetInitialChats st)) \<and>
   (\<forall>payload c. initialChatsPayload st = Some payload \<and> clientSocket st = Some c \<and> ws_open c \<longrightarrow>
      handleGetInitialChats st = st\<lparr>wire := wire st @ [(ws_id c, ''initial_chats'', ChatsData payload)]\<rparr>) \<and>
   (initialChatsPayload st = None \<and> getChats (store st) 50 = [] \<longrightarrow>
      handleGetInitialChats st = st\<lparr>clientIsWaitingForChats := True\<rparr>) \<and>
   (\<forall>c. initialChatsPayload st = None \<and> getChats (store st) 50 \<noteq> [] \<and>
        clientSocket st = Some c \<and> ws_open c \<longrightarrow>
      handleGetInitialChats st =
        st\<lparr>wire := wire st @
             [(ws_id c, ''initial_chats'', ChatsData (map to_chat_view (getChats (store st) 50)))]\<rparr>) \<and>
   (\<forall>c. clientIsWaitingForChats st \<and> clientSocket st = Some c \<and> ws_open c \<longrightarrow>
      wire (handleHistorySet now_ms item_chats st) =
        wire st @ [(ws_id c, ''initial_chats'', ChatsData (map (history_chat_data now_ms) item_chats))] \<and>
      initialChatsPayload (handleHistorySet now_ms item_chats st) =
        Some (map (history_chat_data now_ms) item_chats) \<and>
      \<not> clientIsWaitingForChats (handleHistorySet now_ms item_chats st)) \<and>
   (\<forall>c. clientIsWaitingForChats st \<and> clientSocket st = Some c \<and> ws_open c \<and>
        getChats (store st) 50 \<noteq> [] \<longrightarrow>
      wire (loadInitialChats st) =
        wire st @ [(ws_id c, ''initial_chats'', ChatsData (map to_chat_view (getChats (store st) 50)))] \<and>
      \<not> clientIsWaitingForChats (loadInitialChats st)) \<and>
   clientSocket (on_close st) = None \<and> \<not> clientIsWaitingForChats (on_close st)"
  by (auto simp: handleWebSocketConnection_def handleGetInitialChats_def handleHistorySet_def
        loadInitialChats_def on_close_def sendToFrontend_def handleFrontendCommand_def Let_def)

theorem relay_snapshot_delivery_witness:
  "handleFrontendCommand failing_handlers \<lparr>cmd_type = Some ''get_initial_chats'', cmd_data = JNull\<rparr>
       (example_backend\<lparr>initialChatsPayload := Some [example_view]\<rparr>) =
     Inr (example_backend\<lparr>initialChatsPayload := Some [example_view],
                           wire := [(1, ''initial_chats'', ChatsData [example_view])]\<rparr>) \<and>
   wire (handleHistorySet 5000 []
           (example_backend\<lparr>store := example_db\<lparr>chats := []\<rparr>, clientIsWaitingForChats := True\<rparr>)) =
     [(1, ''initial_chats'', ChatsData [])]"
  using relay_snapshot_delivery
    [of "\<lparr>ws_id = 1, ws_open = True\<rparr>" "example_backend\<lparr>initialChatsPayload := Some [example_view]\<rparr>"
        "\<lparr>cmd_type = Some ''get_initial_chats'', cmd_data = JNull\<rparr>" failing_handlers 5000 "[]"]
    relay_snapshot_delivery
    [of "\<lparr>ws_id = 1, ws_open = True\<rparr>"
        "example_backend\<lparr>store := example_db\<lparr>chats := []\<rparr>, clientIsWaitingForChats := True\<rparr>"
        "\<lparr>cmd_type = Some ''get_initial_chats'', cmd_data = JNull\<rparr>" failing_handlers 5000 "[]"]
  by (simp add: example_backend_def)

text \<open>The claim as stated fails: a snapshot is cached, the upstream is open, a client
  connects, and all it is sent is \<open>baileys_ready\<close>.\<close>

theorem connect_sends_no_snapshot:
  "initialChatsPayload (example_backend\<lparr>clientSocket := None, initialChatsPayload := Some [example_view]\<rparr>)
     = Some [example_view] \<and>
   wire (handleWebSocketConnection \<lparr>ws_id = 1, ws_open = True\<rparr>
           (example_backend\<lparr>clientSocket := None, initialChatsPayload := Some [example_view]\<rparr>))
     = [(1, ''baileys_ready'', EmptyData)]"
  by (simp add: example_backend_def handleWebSocketConnection_def sendToFrontend_def)

section \<open>Connection manager (backend.js)\<close>

subsection \<open>The retry policy\<close>

lemma sendToFrontend_fields [simp]:
  "reconnectAttempts (sendToFrontend ty data st) = reconnectAttempts st"
  "timeouts (sendToFrontend ty data st) = timeouts st"
  "credentials (sendToFrontend ty data st) = credentials st"
  "initialChatsPayload (sendToFrontend ty data st) = initialChatsPayload st"
  "clientSocket (sendToFrontend ty data st) = clientSocket st"
  "store (sendToFrontend ty data st) = store st"
  "fetches (sendToFrontend ty data st) = fetches st"
  by (simp_all add: sendToFrontend_def split: option.splits)

lemma emitted_sendToFrontend: "emitted (sendToFrontend ty data st) = insert (ty, data) (emitted st)"
  by (auto simp: emitted_def sendToFrontend_def split: option.splits)

lemma failed_connects_below_max:
  "reconnectAttempts st + n \<le> MAX_RECONNECT_ATTEMPTS \<Longrightarrow>
   (connectToWhatsApp False ^^ n) st =
     st\<lparr>reconnectAttempts := reconnectAttempts st + n,
        timeouts := timeouts st @ replicate n RECONNECT_DELAY\<rparr>"
proof (induction n)
  case 0
  then show ?case by simp
next
  case (Suc n)
  then show ?case
    by (simp add: connectToWhatsApp_def replicate_append_same)
qed

lemma failed_connects_at_max:
  "MAX_RECONNECT_ATTEMPTS \<le> reconnectAttempts st \<Longrightarrow>
   reconnectAttempts ((connectToWhatsApp False ^^ n) st) = reconnectAttempts st \<and>
   timeouts ((connectToWhatsApp False ^^ n) st) = timeouts st \<and>
   (0 < n \<longrightarrow> (''connection_failed'', ErrorResponse ''baileys'' ''connection initialization'')
                 \<in> emitted ((connectToWhatsApp False ^^ n) st))"
proof (induction n)
  case 0
  then show ?case by simp
next
  case (Suc n)
  then show ?case
    by (simp add: connectToWhatsApp_def emitted_sendToFrontend)
qed

lemma sixth_failure:
  assumes "reconnectAttempts st = 0"
  shows "timeouts ((connectToWhatsApp False ^^ (5 + n)) st) = timeouts st @ replicate 5 RECONNECT_DELAY \<and>
         reconnectAttempts ((connectToWhatsApp False ^^ (5 + n)) st) = 5 \<and>
         (0 < n \<longrightarrow> (''connection_failed'', ErrorResponse ''baileys'' ''connection initialization'')
                 \<in> emitted ((connectToWhatsApp False ^^ (5 + n)) st))"
proof -
  let ?st5 = "st\<lparr>reconnectAttempts := 5, timeouts := timeouts st @ replicate 5 RECONNECT_DELAY\<rparr>"
  have five: "(connectToWhatsApp False ^^ 5) st = ?st5"
    using failed_connects_below_max [of st 5] assms by (simp add: MAX_RECONNECT_ATTEMPTS_def)
  have "(connectToWhatsApp False ^^ (5 + n)) st = (connectToWhatsApp False ^^ n) ?st5"
    using five by (simp add: add.commute [of 5 n] funpow_add del: funpow.simps)
  then show ?thesis
    using failed_connects_at_max [of ?st5 n] by (simp add: MAX_RECONNECT_ATTEMPTS_def)
qed

text \<open>
  Claim C3, as amended.  The counter of reconnect attempts decides: a failed connect,
  or a close of the upstream connection whose cause is not a logout, schedules a
  reconnect after 5000 ms and increments the counter while the counter is below five;
  once the counter is five it schedules nothing, leaves the counter alone and emits
  \<open>connection_failed\<close>.  So from a counter of zero each of the first five consecutive
  failed connects still schedules a reconnect, and it is the sixth that is terminal:
  from then on no failed connect schedules another.
  A close whose cause is the upstream's logout code, at any counter, resets the counter
  to zero and schedules a connect after 2000 ms, and the stored credentials are gone
  when their removal succeeds (a failing removal is logged, and the reset and the
  connect happen all the same).
\<close>

theorem reconnect_policy:
  "(reconnectAttempts st < 5 \<longrightarrow>
      connectToWhatsApp False st =
        st\<lparr>reconnectAttempts := reconnectAttempts st + 1, timeouts := timeouts st @ [5000]\<rparr>) \<and>
   (5 \<le> reconnectAttempts st \<longrightarrow>
      reconnectAttempts (connectToWhatsApp False st) = reconnectAttempts st \<and>
      timeouts (connectToWhatsApp False st) = timeouts st \<and>
      emitted (connectToWhatsApp False st) =
        insert (''connection_failed'', ErrorResponse ''baileys'' ''connection initialization'') (emitted st)) \<and>
   (reconnectAttempts st = 0 \<and> n \<le> 5 \<longrightarrow>
      (connectToWhatsApp False ^^ n) st =
        st\<lparr>reconnectAttempts := n, timeouts := timeouts st @ replicate n 5000\<rparr>) \<and>
   (reconnectAttempts st = 0 \<and> 5 < n \<longrightarrow>
      reconnectAttempts ((connectToWhatsApp False ^^ n) st) = 5 \<and>
      timeouts ((connectToWhatsApp False ^^ n) st) = timeouts st @ replicate 5 5000 \<and>
      (''connection_failed'', ErrorResponse ''baileys'' ''connection initialization'')
        \<in> emitted ((connectToWhatsApp False ^^ n) st)) \<and>
   (connection update = Some ''close'' \<and> disconnect_status update \<noteq> Some loggedOut \<and>
    reconnectAttempts st < 5 \<longrightarrow>
      reconnectAttempts (handleConnectionUpdate qr_image rm_ok on_open update st) = reconnectAttempts st + 1 \<and>
      timeouts (handleConnectionUpdate qr_image rm_ok on_open update st) = timeouts st @ [5000]) \<and>
   (connection update = Some ''close'' \<and> disconnect_status update \<noteq> Some loggedOut \<and>
    5 \<le> reconnectAttempts st \<longrightarrow>
      reconnectAttempts (handleConnectionUpdate qr_image rm_ok on_open update st) = reconnectAttempts st \<and>
      timeouts (handleConnectionUpdate qr_image rm_ok on_open update st) = timeouts st \<and>
      (''connection_failed'', ReasonData ''Max reconnection attempts reached'')
        \<in> emitted (handleConnectionUpdate qr_image rm_ok on_open update st)) \<and>
   (connection update = Some ''close'' \<and> disconnect_status update = Some loggedOut \<longrightarrow>
      reconnectAttempts (handleConnectionUpdate qr_image rm_ok on_open update st) = 0 \<and>
      timeouts (handleConnectionUpdate qr_image rm_ok on_open update st) = timeouts st @ [2000] \<and>
      credentials (handleConnectionUpdate qr_image rm_ok on_open update st) = (credentials st \<and> \<not> rm_ok) \<and>
      initialChatsPayload (handleConnectionUpdate qr_image rm_ok on_open update st) = None)"
proof -
  have close_fail: "reconnectAttempts r = reconnectAttempts st \<and> timeouts r = timeouts st \<and>
      (''connection_failed'', ReasonData ''Max reconnection attempts reached'') \<in> emitted r"
    if "connection update = Some ''close''" "disconnect_status update \<noteq> Some loggedOut"
      "5 \<le> reconnectAttempts st" "r = handleConnectionUpdate qr_image rm_ok on_open update st" for r
    using that
    by (auto simp: handleConnectionUpdate_def Let_def MAX_RECONNECT_ATTEMPTS_def loggedOut_def
          emitted_sendToFrontend split: option.splits)
  have close_retry: "reconnectAttempts r = reconnectAttempts st + 1 \<and> timeouts r = timeouts st @ [5000]"
    if "connection update = Some ''close''" "disconnect_status update \<noteq> Some loggedOut"
      "reconnectAttempts st < 5" "r = handleConnectionUpdate qr_image rm_ok on_open update st" for r
    using that
    by (auto simp: handleConnectionUpdate_def Let_def MAX_RECONNECT_ATTEMPTS_def RECONNECT_DELAY_def
          loggedOut_def split: option.splits)
  have logout: "reconnectAttempts r = 0 \<and> timeouts r = timeouts st @ [2000] \<and>
      credentials r = (credentials st \<and> \<not> rm_ok) \<and> initialChatsPayload r = None"
    if "connection update = Some ''close''" "disconnect_status update = Some loggedOut"
      "r = handleConnectionUpdate qr_image rm_ok on_open update st" for r
    using that
    by (auto simp: handleConnectionUpdate_def Let_def split: option.splits)
  have run: "(connectToWhatsApp False ^^ n) st =
        st\<lparr>reconnectAttempts := n, timeouts := timeouts st @ replicate n 5000\<rparr>"
    if "reconnectAttempts st = 0" "n \<le> 5"
    using that failed_connects_below_max [of st n]
    by (simp add: MAX_RECONNECT_ATTEMPTS_def RECONNECT_DELAY_def)
  have one: "reconnectAttempts st < 5 \<longrightarrow>
      connectToWhatsApp False st =
        st\<lparr>reconnectAttempts := reconnectAttempts st + 1, timeouts := timeouts st @ [5000]\<rparr>"
    by (simp add: connectToWhatsApp_def MAX_RECONNECT_ATTEMPTS_def RECONNECT_DELAY_def)
  have stop: "5 \<le> reconnectAttempts st \<longrightarrow>
      reconnectAttempts (connectToWhatsApp False st) = reconnectAttempts st \<and>
      timeouts (connectToWhatsApp False st) = timeouts st \<and>
      emitted (connectToWhatsApp False st) =
        insert (''connection_failed'', ErrorResponse ''baileys'' ''connection initialization'') (emitted st)"
    by (simp add: connectToWhatsApp_def MAX_RECONNECT_ATTEMPTS_def emitted_sendToFrontend)
  have later: "reconnectAttempts ((connectToWhatsApp False ^^ n) st) = 5 \<and>
      timeouts ((connectToWhatsApp False ^^ n) st) = timeouts st @ replicate 5 5000 \<and>
      (''connection_failed'', ErrorResponse ''baileys'' ''connection initialization'')
        \<in> emitted ((connectToWhatsApp False ^^ n) st)"
    if "reconnectAttempts st = 0" "5 < n"
  proof -
    from that(2) obtain m where "n = 5 + m" "0 < m"
      by (metis less_imp_add_positive)
    then show ?thesis
      using sixth_failure [OF that(1), of m] by (simp add: RECONNECT_DELAY_def)
  qed
  show ?thesis
    using one stop run later close_retry close_fail logout by blast
qed

theorem reconnect_policy_witness:
  "(connectToWhatsApp False ^^ 5) initial_backend =
     initial_backend\<lparr>reconnectAttempts := 5, timeouts := replicate 5 5000\<rparr> \<and>
   timeouts (connectToWhatsApp False (initial_backend\<lparr>reconnectAttempts := 5\<rparr>)) = [] \<and>
   emitted (connectToWhatsApp False (initial_backend\<lparr>reconnectAttempts := 5\<rparr>)) =
     {(''connection_failed'', ErrorResponse ''baileys'' ''connection initialization'')} \<and>
   reconnectAttempts (handleConnectionUpdate (\<lambda>q. None) True (\<lambda>s. s) logout_update
                        (initial_backend\<lparr>reconnectAttempts := 3\<rparr>)) = 0 \<and>
   timeouts (handleConnectionUpdate (\<lambda>q. None) True (\<lambda>s. s) logout_update
               (initial_backend\<lparr>reconnectAttempts := 3\<rparr>)) = [2000] \<and>
   \<not> credentials (handleConnectionUpdate (\<lambda>q. None) True (\<lambda>s. s) logout_update
                     (initial_backend\<lparr>reconnectAttempts := 3\<rparr>))"
  using reconnect_policy [of initial_backend 5 logout_update "\<lambda>q. None" True "\<lambda>s. s"]
    reconnect_policy [of "initial_backend\<lparr>reconnectAttempts := 5\<rparr>" 0 logout_update "\<lambda>q. None" True "\<lambda>s. s"]
    reconnect_policy [of "initial_backend\<lparr>reconnectAttempts := 3\<rparr>" 0 logout_update "\<lambda>q. None" True "\<lambda>s. s"]
  by (simp add: initial_backend_def logout_update_def loggedOut_def emitted_def)

text \<open>The claim as stated fails: after five consecutive failed connects from the
  initial state the fifth reconnect has just been scheduled and no
  \<open>connection_failed\<close> event has been handed to \<open>sendToFrontend\<close>.\<close>

theorem five_failures_not_terminal:
  "reconnectAttempts
     (connectToWhatsApp False (connectToWhatsApp False (connectToWhatsApp False
        (connectToWhatsApp False (connectToWhatsApp False initial_backend))))) = 5 \<and>
   timeouts
     (connectToWhatsApp False (connectToWhatsApp False (connectToWhatsApp False
        (connectToWhatsApp False initial_backend)))) = [5000, 5000, 5000, 5000] \<and>
   timeouts
     (connectToWhatsApp False (connectToWhatsApp False (connectToWhatsApp False
        (connectToWhatsApp False (connectToWhatsApp False initial_backend))))) =
     [5000, 5000, 5000, 5000, 5000] \<and>
   wire
     (connectToWhatsApp False (connectToWhatsApp False (connectToWhatsApp False
        (connectToWhatsApp False (connectToWhatsApp False initial_backend))))) = [] \<and>
   dropped
     (connectToWhatsApp False (connectToWhatsApp False (connectToWhatsApp False
        (connectToWhatsApp False (connectToWhatsApp False initial_backend))))) = []"
  by (simp add: connectToWhatsApp_def initial_backend_def MAX_RECONNECT_ATTEMPTS_def
        RECONNECT_DELAY_def)

section \<open>Sync engine (backend.js)\<close>

subsection \<open>The batch loop of the first sync\<close>

lemma delete_messages_absent:
  "\<forall>m \<in> set ms. \<not> P m \<Longrightarrow> delete_messages P ms = ms"
proof -
  assume a: "\<forall>m \<in> set ms. \<not> P m"
  then have f: "filter P ms = []" "filter (\<lambda>m. \<not> P m) ms = ms"
    by (simp_all add: filter_empty_conv)
  have "map (\<lambda>m. if (case m_reply_to_id m of None \<Rightarrow> False | Some r \<Rightarrow> r \<in> set [])
                     then m\<lparr>m_reply_to_id := None\<rparr> else m) ms = ms"
    by (rule map_idI) (simp split: option.splits)
  then show ?thesis
    by (simp add: delete_messages_def Let_def f)
qed

lemma getMessage_None_iff: "getMessage db i = None \<longleftrightarrow> (\<forall>m \<in> set (messages db). m_id m \<noteq> i)"
  by (auto simp: getMessage_def find_None_iff)

lemma fresh_ids_split:
  assumes "\<forall>r \<in> set n2. f r \<notin> f ` set (old @ n1)"
  shows "f ` set n1 \<inter> f ` set n2 = {}" and "\<forall>r \<in> set n2. f r \<notin> f ` set old"
proof -
  have fresh: "f r \<notin> f ` set n1 \<and> f r \<notin> f ` set old" if "r \<in> set n2" for r
    using assms that by (simp add: image_Un)
  have "False" if "a \<in> set n1" "b \<in> set n2" "f a = f b" for a b
  proof -
    from that(1,3) have "f b \<in> f ` set n1" by (metis imageI)
    with fresh [OF that(2)] show False by simp
  qed
  then show "f ` set n1 \<inter> f ` set n2 = {}"
    by auto
  show "\<forall>r \<in> set n2. f r \<notin> f ` set old"
    using fresh by simp
qed

lemma save_downloaded_message_appends:
  assumes "save_downloaded_message now jid msg (c, db) = (c', db')"
  shows "\<exists>new. messages db' = messages db @ new \<and> c' = c + length new \<and> length new \<le> 1 \<and>
           distinct (map m_id new) \<and> (\<forall>r \<in> set new. m_id r \<notin> m_id ` set (messages db))"
proof (cases "getMessage db (key_id msg)")
  case (Some r)
  then show ?thesis using assms by (simp add: save_downloaded_message_def)
next
  case None
  then have absent: "\<forall>m \<in> set (messages db). \<not> m_id m = key_id msg"
    by (simp add: getMessage_None_iff)
  show ?thesis
  proof (cases "c' = c \<and> db' = db")
    case True
    then show ?thesis by simp
  next
    case False
    with assms None obtain cont ty where
      sv: "saveMessage db now (key_id msg) jid (key_fromMe msg) cont
             (times_1000 (messageTimestamp msg)) ty ''received'' = Inr db'" and c': "c' = c + 1"
      by (auto simp: save_downloaded_message_def Let_def split: if_splits sum.splits)
    from sv obtain r where "messages db' = delete_messages (\<lambda>m. m_id m = key_id msg) (messages db) @ [r]"
      and "m_id r = key_id msg"
      by (elim saveMessage_InrD) simp
    then have "messages db' = messages db @ [r]" "m_id r \<notin> m_id ` set (messages db)"
      using absent by (auto simp: delete_messages_absent)
    then show ?thesis using c' by simp
  qed
qed

lemma fold_save_downloaded_appends:
  assumes "fold (save_downloaded_message now jid) ms (c, db) = (c', db')"
  shows "\<exists>new. messages db' = messages db @ new \<and> c' = c + length new \<and> length new \<le> length ms \<and>
           distinct (map m_id new) \<and> (\<forall>r \<in> set new. m_id r \<notin> m_id ` set (messages db))"
  using assms
proof (induction ms arbitrary: c db)
  case Nil
  then show ?case by simp
next
  case (Cons m ms)
  obtain c1 db1 where step: "save_downloaded_message now jid m (c, db) = (c1, db1)"
    by (cases "save_downloaded_message now jid m (c, db)")
  with Cons.prems have rest: "fold (save_downloaded_message now jid) ms (c1, db1) = (c', db')"
    by simp
  from save_downloaded_message_appends [OF step] obtain n1 where
    n1: "messages db1 = messages db @ n1" "c1 = c + length n1" "length n1 \<le> 1"
      "distinct (map m_id n1)" "\<forall>r \<in> set n1. m_id r \<notin> m_id ` set (messages db)" by blast
  from Cons.IH [OF rest] obtain n2 where
    n2: "messages db' = messages db1 @ n2" "c' = c1 + length n2" "length n2 \<le> length ms"
      "distinct (map m_id n2)" "\<forall>r \<in> set n2. m_id r \<notin> m_id ` set (messages db1)" by blast
  have disj: "m_id ` set n1 \<inter> m_id ` set n2 = {}"
    and old: "\<forall>r \<in> set n2. m_id r \<notin> m_id ` set (messages db)"
    using fresh_ids_split [of n2 m_id "messages db" n1] n1(1) n2(5) by simp_all
  show ?case
    by (rule exI [of _ "n1 @ n2"]) (use n1 n2 disj old in auto)
qed

lemma download_loop_zero: "download_loop up now jid 0 t st = (t, st)"
  by (simp add: download_loop.simps)

lemma download_loop_step:
  "download_loop up now jid (batchSize * Suc r) t st =
     (let st1 = st\<lparr>fetches := fetches st @ [(jid, batchSize)]\<rparr>
      in case up (length (fetches st)) jid batchSize of
           FetchThrows \<Rightarrow> (t, st1)
         | FetchNothing \<Rightarrow> (t, st1)
         | FetchMessages ms \<Rightarrow>
             if ms = [] then (t, st1)
             else
               (let saved = fold (save_downloaded_message now jid) ms (0, store st);
                    st2 = st1\<lparr>store := snd saved\<rparr>
                in if length ms < batchSize then (t + fst saved, st2)
                   else download_loop up now jid (batchSize * r) (t + fst saved) st2))"
proof -
  have pos: "(0 < batchSize * Suc r \<and> 0 < batchSize) = True"
    and m: "min batchSize (batchSize * Suc r) = batchSize"
    and d: "batchSize * Suc r - batchSize = batchSize * r"
    by (simp_all add: batchSize_def)
  show ?thesis
    by (subst download_loop.simps, simp only: pos m d if_True)
       (simp add: Let_def split: fetch_result.splits)
qed

lemma download_loop_spec:
  assumes "download_loop up now jid (batchSize * r) t st = (t', st')"
  shows "\<exists>k new. k \<le> r \<and> fetches st' = fetches st @ replicate k (jid, batchSize) \<and>
           (\<forall>j. Suc j < k \<longrightarrow> full_batch (up (length (fetches st) + j) jid batchSize) batchSize) \<and>
           (k < r \<longrightarrow> 0 < k \<and> \<not> full_batch (up (length (fetches st) + (k - 1)) jid batchSize) batchSize) \<and>
           messages (store st') = messages (store st) @ new \<and> t' = t + length new \<and>
           distinct (map m_id new) \<and> (\<forall>r \<in> set new. m_id r \<notin> m_id ` set (messages (store st))) \<and>
           (honours_count up \<longrightarrow> length new \<le> batchSize * k)"
  using assms
proof (induction r arbitrary: t st)
  case 0
  then have "t' = t" "st' = st" by (simp_all add: download_loop_zero)
  then show ?case by (intro exI [of _ 0] exI [of _ "[]"]) simp
next
  case (Suc r)
  let ?n0 = "length (fetches st)"
  let ?res = "up ?n0 jid batchSize"
  let ?st1 = "st\<lparr>fetches := fetches st @ [(jid, batchSize)]\<rparr>"
  note run = Suc.prems [unfolded download_loop_step Let_def]
  show ?case
  proof (cases "full_batch ?res batchSize")
    case False
    have "\<exists>new. fetches st' = fetches st @ [(jid, batchSize)] \<and>
            messages (store st') = messages (store st) @ new \<and> t' = t + length new \<and>
            distinct (map m_id new) \<and> (\<forall>r \<in> set new. m_id r \<notin> m_id ` set (messages (store st))) \<and>
            (honours_count up \<longrightarrow> length new \<le> batchSize)"
    proof (cases ?res)
      case FetchThrows
      then show ?thesis using run by auto
    next
      case FetchNothing
      then show ?thesis using run by auto
    next
      case (FetchMessages ms)
      show ?thesis
      proof (cases "ms = []")
        case True
        then show ?thesis using run FetchMessages by auto
      next
        case nonempty: False
        then have short: "length ms < batchSize"
          using False FetchMessages by (simp add: full_batch_def)
        obtain c db where saved: "fold (save_downloaded_message now jid) ms (0, store st) = (c, db)"
          by (cases "fold (save_downloaded_message now jid) ms (0, store st)")
        from fold_save_downloaded_appends [OF saved] obtain new where
          new: "messages db = messages (store st) @ new" "c = length new" "length new \<le> length ms"
            "distinct (map m_id new)" "\<forall>r \<in> set new. m_id r \<notin> m_id ` set (messages (store st))"
          by auto
        have "t' = t + c" "st' = ?st1\<lparr>store := db\<rparr>"
          using run FetchMessages nonempty short saved by simp_all
        then show ?thesis
          using new short by (intro exI [of _ new]) simp
      qed
    qed
    then obtain new where new: "fetches st' = fetches st @ [(jid, batchSize)]"
      "messages (store st') = messages (store st) @ new" "t' = t + length new"
      "distinct (map m_id new)" "\<forall>r \<in> set new. m_id r \<notin> m_id ` set (messages (store st))"
      "honours_count up \<longrightarrow> length new \<le> batchSize"
      by blast
    show ?thesis
      by (intro exI [of _ 1] exI [of _ new]) (use new False in simp)
  next
    case True
    then obtain ms where ms: "?res = FetchMessages ms" "ms \<noteq> []" "batchSize \<le> length ms"
      by (auto simp: full_batch_def split: fetch_result.splits)
    obtain c db where saved: "fold (save_downloaded_message now jid) ms (0, store st) = (c, db)"
      by (cases "fold (save_downloaded_message now jid) ms (0, store st)")
    from fold_save_downloaded_appends [OF saved] obtain new1 where
      new1: "messages db = messages (store st) @ new1" "c = length new1" "length new1 \<le> length ms"
        "distinct (map m_id new1)" "\<forall>r \<in> set new1. m_id r \<notin> m_id ` set (messages (store st))"
      by auto
    let ?st2 = "?st1\<lparr>store := db\<rparr>"
    have rec: "download_loop up now jid (batchSize * r) (t + c) ?st2 = (t', st')"
      using run ms saved by simp
    from Suc.IH [OF rec] obtain k new2 where
      k: "k \<le> r" "fetches st' = fetches ?st2 @ replicate k (jid, batchSize)"
        "\<forall>j. Suc j < k \<longrightarrow> full_batch (up (length (fetches ?st2) + j) jid batchSize) batchSize"
        "k < r \<longrightarrow> 0 < k \<and> \<not> full_batch (up (length (fetches ?st2) + (k - 1)) jid batchSize) batchSize"
        "messages (store st') = messages (store ?st2) @ new2" "t' = t + c + length new2"
        "honours_count up \<longrightarrow> length new2 \<le> batchSize * k"
      and ids2: "distinct (map m_id new2)" "\<forall>r \<in> set new2. m_id r \<notin> m_id ` set (messages (store ?st2))"
      by blast
    have full: "full_batch (up (?n0 + j) jid batchSize) batchSize" if "Suc j < Suc k" for j
    proof (cases j)
      case 0
      then show ?thesis using True by simp
    next
      case (Suc j')
      then have "Suc j' < k" using that by simp
      with k(3) have "full_batch (up (length (fetches ?st2) + j') jid batchSize) batchSize" by blast
      then show ?thesis using Suc by simp
    qed
    have last: "\<not> full_batch (up (?n0 + (Suc k - 1)) jid batchSize) batchSize" if "Suc k < Suc r"
    proof -
      from that have "k < r" by simp
      with k(4) have pos: "0 < k"
        and nf: "\<not> full_batch (up (length (fetches ?st2) + (k - 1)) jid batchSize) batchSize"
        by blast+
      from pos obtain k' where "k = Suc k'" by (cases k) auto
      with nf show ?thesis by simp
    qed
    have hon: "length (new1 @ new2) \<le> batchSize * Suc k" if "honours_count up"
    proof -
      from that ms(1) have "length ms \<le> batchSize"
        unfolding honours_count_def by blast
      with new1(3) k(7) that show ?thesis by simp
    qed
    have disj: "m_id ` set new1 \<inter> m_id ` set new2 = {}"
      and old: "\<forall>r \<in> set new2. m_id r \<notin> m_id ` set (messages (store st))"
      using fresh_ids_split [of new2 m_id "messages (store st)" new1] new1(1) ids2(2) by simp_all
    have ids: "distinct (map m_id (new1 @ new2))"
      "\<forall>r \<in> set (new1 @ new2). m_id r \<notin> m_id ` set (messages (store st))"
      using new1(4,5) ids2(1) disj old by auto
    have fetched: "fetches st' = fetches st @ replicate (Suc k) (jid, batchSize)"
      using k(2) by (simp add: replicate_append_same [symmetric])
    have msgs: "messages (store st') = messages (store st) @ new1 @ new2" "t' = t + length (new1 @ new2)"
      using k(5,6) new1(1,2) by simp_all
    show ?thesis
      using k(1) fetched full last msgs ids hon
      by (intro exI [of _ "Suc k"] exI [of _ "new1 @ new2"]) (simp del: replicate_Suc)
  qed
qed

lemma fetched_count_bound:
  assumes "honours_count up" and "k \<le> 10"
  shows "(\<Sum>j<k. fetched_count (up (n0 + j) jid 50)) \<le> 500"
proof -
  have "fetched_count (up i jid 50) \<le> 50" for i
    using assms(1) by (auto simp: fetched_count_def honours_count_def split: fetch_result.splits)
  then have "(\<Sum>j<k. fetched_count (up (n0 + j) jid 50)) \<le> (\<Sum>j<k. 50)"
    by (intro sum_mono) simp
  also have "\<dots> \<le> 500" using assms(2) by simp
  finally show ?thesis .
qed

text \<open>
  Claim C2, as amended.  The download of a chat in the first sync makes at most ten
  fetches, each asking for 50 messages (500 in all), and when the upstream answers with
  no more messages than it was asked for, at most 500 messages are fetched and at most
  500 saved.  Every fetch
  but the last answered with at least the 50 messages asked for: the loop ends after a
  fetch that throws or answers nothing, an empty list or fewer than 50 messages, and
  otherwise after the tenth fetch.  The existence of a message is checked by identifier
  before it is inserted: the rows the store had stay as they were, the rows added have
  pairwise different identifiers that the store did not have, and their number is the
  count returned.  A batch whose messages all exist locally does not end the loop.
\<close>

theorem first_sync_download_batches:
  assumes "first_sync_download up now jid st = (n_saved, st')"
  shows "\<exists>k new. k \<le> 10 \<and> fetches st' = fetches st @ replicate k (jid, 50) \<and>
           (sock st \<and> baileysConnectionStatus st = Some ''open'' \<longrightarrow> 0 < k) \<and>
           (\<forall>j. Suc j < k \<longrightarrow> full_batch (up (length (fetches st) + j) jid 50) 50) \<and>
           (0 < k \<and> k < 10 \<longrightarrow> \<not> full_batch (up (length (fetches st) + (k - 1)) jid 50) 50) \<and>
           messages (store st') = messages (store st) @ new \<and> n_saved = length new \<and>
           distinct (map m_id new) \<and> (\<forall>r \<in> set new. getMessage (store st) (m_id r) = None) \<and>
           (honours_count up \<longrightarrow>
              n_saved \<le> 500 \<and>
              (\<Sum>j<k. fetched_count (up (length (fetches st) + j) jid 50)) \<le> 500)"
proof (cases "sock st \<and> baileysConnectionStatus st = Some ''open''")
  case False
  then have "n_saved = 0" "st' = st"
    using assms by (auto simp: first_sync_download_def downloadMessageHistory_def)
  then show ?thesis
    using False by (intro exI [of _ 0] exI [of _ "[]"]) simp
next
  case True
  then have "download_loop up now jid (batchSize * 10) 0 st = (n_saved, st')"
    using assms by (simp add: first_sync_download_def downloadMessageHistory_def batchSize_def)
  from download_loop_spec [OF this] obtain k new where
    k: "k \<le> 10" "fetches st' = fetches st @ replicate k (jid, batchSize)"
      "\<forall>j. Suc j < k \<longrightarrow> full_batch (up (length (fetches st) + j) jid batchSize) batchSize"
      "k < 10 \<longrightarrow> 0 < k \<and> \<not> full_batch (up (length (fetches st) + (k - 1)) jid batchSize) batchSize"
      "messages (store st') = messages (store st) @ new" "n_saved = 0 + length new"
      "distinct (map m_id new)" "\<forall>r \<in> set new. m_id r \<notin> m_id ` set (messages (store st))"
      "honours_count up \<longrightarrow> length new \<le> batchSize * k"
    by blast
  have pos: "0 < k" using k(1,4) by (cases "k < 10") simp_all
  have "m_id m \<noteq> m_id r" if "r \<in> set new" "m \<in> set (messages (store st))" for r m
  proof
    assume "m_id m = m_id r"
    with that(2) have "m_id r \<in> m_id ` set (messages (store st))" by (metis imageI)
    with k(8) that(1) show False by blast
  qed
  then have fresh: "\<forall>r \<in> set new. getMessage (store st) (m_id r) = None"
    by (simp add: getMessage_None_iff)
  have cap: "honours_count up \<longrightarrow>
      n_saved \<le> 500 \<and> (\<Sum>j<k. fetched_count (up (length (fetches st) + j) jid 50)) \<le> 500"
    using k(1,6,9) fetched_count_bound [of up k "length (fetches st)" jid]
    by (auto simp: batchSize_def)
  show ?thesis
    using k(1-7) pos fresh cap
    by (intro exI [of _ k] exI [of _ new]) (simp add: batchSize_def)
qed

lemma short_eval:
  "fst (first_sync_download short_upstream 10 ''alice'' example_backend) = 3 \<and>
   fetches (snd (first_sync_download short_upstream 10 ''alice'' example_backend)) = [(''alice'', 50)] \<and>
   map m_id (messages (store (snd (first_sync_download short_upstream 10 ''alice'' example_backend))))
     = [''m'', ''mm'', ''mmm'']"
  by code_simp

theorem first_sync_download_batches_witness:
  "honours_count short_upstream \<and>
   fst (first_sync_download short_upstream 10 ''alice'' example_backend) = 3 \<and>
   fetches (snd (first_sync_download short_upstream 10 ''alice'' example_backend)) = [(''alice'', 50)] \<and>
   map m_id (messages (store (snd (first_sync_download short_upstream 10 ''alice'' example_backend))))
     = [''m'', ''mm'', ''mmm'']"
  using first_sync_download_batches
    [of short_upstream 10 "''alice''" example_backend
        "fst (first_sync_download short_upstream 10 ''alice'' example_backend)"
        "snd (first_sync_download short_upstream 10 ''alice'' example_backend)"]
    short_eval
  by (simp add: honours_count_def short_upstream_def)

lemma all_exist_fold:
  "all_exist db ms \<Longrightarrow> fold (save_downloaded_message now jid) ms (c, db) = (c, db)"
  by (induction ms) (auto simp: all_exist_def save_downloaded_message_def)

lemma all_exist_loop:
  assumes "all_exist (store st) batch" and "length batch = batchSize"
    and "\<And>i. up i jid batchSize = FetchMessages batch"
  shows "download_loop up now jid (batchSize * r) t st =
           (t, st\<lparr>fetches := fetches st @ replicate r (jid, batchSize)\<rparr>)"
  using assms(1)
proof (induction r arbitrary: st)
  case 0
  then show ?case by (simp add: download_loop_zero)
next
  case (Suc r)
  have ne: "batch \<noteq> []" using assms(2) by (auto simp: batchSize_def)
  let ?st2 = "st\<lparr>fetches := fetches st @ [(jid, batchSize)]\<rparr>"
  have "download_loop up now jid (batchSize * Suc r) t st =
          download_loop up now jid (batchSize * r) t ?st2"
    using Suc.prems ne assms(2,3)
    by (subst download_loop_step) (simp add: all_exist_fold Let_def)
  also have "\<dots> = (t, ?st2\<lparr>fetches := fetches ?st2 @ replicate r (jid, batchSize)\<rparr>)"
    using Suc.prems by (intro Suc.IH) simp
  also have "\<dots> = (t, st\<lparr>fetches := fetches st @ replicate (Suc r) (jid, batchSize)\<rparr>)"
    by simp
  finally show ?case .
qed

lemma synced_all_exist: "all_exist (store synced_backend) (map example_text_message [0..<50])"
proof -
  have "getMessage (store synced_backend) (key_id (example_text_message i)) \<noteq> None" if "i < 50" for i
  proof -
    have "example_message (key_id (example_text_message i)) ''alice'' (int i * 1000) ''received'' 0
            \<in> set (messages (store synced_backend))"
      using that by (simp add: synced_backend_def example_backend_def)
    then have "\<exists>m \<in> set (messages (store synced_backend)). m_id m = key_id (example_text_message i)"
      by (rule bexI [rotated]) (simp add: example_message_def)
    then show ?thesis
      by (simp add: getMessage_None_iff)
  qed
  then show ?thesis
    by (simp add: all_exist_def list_all_iff)
qed

text \<open>The claim as stated fails: the upstream answers every fetch with the same 50
  messages, all of which the store already has; the loop does not stop after the first
  batch but makes all ten fetches.\<close>

theorem all_existing_batch_goes_on:
  "echo_upstream 0 ''alice'' 50 = FetchMessages (map example_text_message [0..<50]) \<and>
   all_exist (store synced_backend) (map example_text_message [0..<50]) \<and>
   first_sync_download echo_upstream 10 ''alice'' synced_backend =
     (0, synced_backend\<lparr>fetches := replicate 10 (''alice'', 50)\<rparr>)"
proof -
  have conn: "sock synced_backend" "baileysConnectionStatus synced_backend = Some ''open''"
    "fetches synced_backend = []"
    by (simp_all add: synced_backend_def example_backend_def)
  have "download_loop echo_upstream 10 ''alice'' (batchSize * 10) 0 synced_backend =
          (0, synced_backend\<lparr>fetches := fetches synced_backend @ replicate 10 (''alice'', batchSize)\<rparr>)"
    by (rule all_exist_loop [of _ "map example_text_message [0..<50]"])
       (simp_all add: synced_all_exist batchSize_def echo_upstream_def)
  then show ?thesis
    using conn synced_all_exist
    by (simp add: first_sync_download_def downloadMessageHistory_def batchSize_def echo_upstream_def)
qed

subsection \<open>Incremental sync of a chat\<close>

text \<open>
  Claim C5.  The claim does not hold of the code: the test that guards the fetch
  compares \<open>Date.now()\<close> with the timestamp of the newest stored message of the chat
  (with the last sync time only when the chat has no message), not with the time of the
  last check, although the comment above it reads "Only fetch if we haven't checked
  recently".  For a chat whose newest message is older than a minute, two runs one
  second apart both fetch.
\<close>

theorem syncChatMessages_second_run_fetches:
  "map m_timestamp (getMessages (store old_chat_backend) ''alice'' 1 0) = [1000] \<and>
   syncChatMessages quiet_upstream 10000000 ''alice'' 0 old_chat_backend =
     (0, old_chat_backend\<lparr>fetches := [(''alice'', 20)]\<rparr>) \<and>
   syncChatMessages quiet_upstream 10001000 ''alice'' 10000000
       (old_chat_backend\<lparr>fetches := [(''alice'', 20)]\<rparr>) =
     (0, old_chat_backend\<lparr>fetches := [(''alice'', 20), (''alice'', 20)]\<rparr>)"
  by (simp add: syncChatMessages_def old_chat_backend_def example_backend_def example_db_def
        example_chat_def example_message_def quiet_upstream_def getMessages_def
        sql_limit_offset_def order_by_desc_def Let_def)

theorem syncChatMessages_second_run_fetches_witness:
  "sock old_chat_backend \<and> baileysConnectionStatus old_chat_backend = Some ''open'' \<and>
   fetches (snd (syncChatMessages quiet_upstream 10001000 ''alice'' 10000000
                   (snd (syncChatMessages quiet_upstream 10000000 ''alice'' 0 old_chat_backend))))
     = [(''alice'', 20), (''alice'', 20)]"
  using syncChatMessages_second_run_fetches
  by (simp add: old_chat_backend_def example_backend_def)

lemma syncChatMessages_skip:
  assumes "sock st" and "baileysConnectionStatus st = Some ''open''"
    and "now_ms - (case getMessages (store st) jid 1 0 of [] \<Rightarrow> lastSyncTime | m # _ \<Rightarrow> m_timestamp m) < 60000"
  shows "syncChatMessages up now_ms jid lastSyncTime st = (0, st)"
  using assms by (simp add: syncChatMessages_def Let_def)

lemma sync_message_newer:
  assumes "sync_message now jid lastMessageTime msg (c, db) = (c', db')"
  shows "\<exists>new. messages db' = messages db @ new \<and> c' = c + length new \<and>
           (\<forall>r \<in> set new. lastMessageTime < m_timestamp r \<and> m_chat_jid r = jid \<and>
               getMessage db (m_id r) = None)"
proof (cases "c' = c \<and> db' = db")
  case True
  then show ?thesis by simp
next
  case False
  with assms obtain cont where
    none: "getMessage db (key_id msg) = None"
    and newer: "\<not> (case times_1000 (messageTimestamp msg) of None \<Rightarrow> False | Some t \<Rightarrow> t \<le> lastMessageTime)"
    and sv: "saveMessage db now (key_id msg) jid (key_fromMe msg) cont
             (times_1000 (messageTimestamp msg)) ''text'' ''received'' = Inr db'" and c': "c' = c + 1"
    by (auto simp: sync_message_def Let_def split: if_splits sum.splits option.splits)
  from sv obtain fb tsv where ts: "times_1000 (messageTimestamp msg) = Some tsv"
    and ms: "messages db' = delete_messages (\<lambda>m. m_id m = key_id msg) (messages db) @
           [\<lparr>m_id = key_id msg, m_chat_jid = jid, m_from_me = fb, m_message_type = ''text'',
             m_content = cont, m_timestamp = tsv, m_status = ''received'', m_reply_to_id = None,
             m_created_at = now\<rparr>]"
    by (elim saveMessage_InrD) simp
  have "delete_messages (\<lambda>m. m_id m = key_id msg) (messages db) = messages db"
    using none by (intro delete_messages_absent) (simp add: getMessage_None_iff)
  then show ?thesis
    using ms ts newer none c' by simp
qed

lemma fold_sync_message_newer:
  assumes "fold (sync_message now jid lastMessageTime) ms (c, db) = (c', db')"
  shows "\<exists>new. messages db' = messages db @ new \<and> c' = c + length new \<and>
           (\<forall>r \<in> set new. lastMessageTime < m_timestamp r \<and> m_chat_jid r = jid)"
  using assms
proof (induction ms arbitrary: c db)
  case Nil
  then show ?case by simp
next
  case (Cons m ms)
  obtain c1 db1 where step: "sync_message now jid lastMessageTime m (c, db) = (c1, db1)"
    by (cases "sync_message now jid lastMessageTime m (c, db)")
  with Cons.prems have rest: "fold (sync_message now jid lastMessageTime) ms (c1, db1) = (c', db')"
    by simp
  from sync_message_newer [OF step] obtain n1 where
    n1: "messages db1 = messages db @ n1" "c1 = c + length n1"
      "\<forall>r \<in> set n1. lastMessageTime < m_timestamp r \<and> m_chat_jid r = jid" by blast
  from Cons.IH [OF rest] obtain n2 where
    n2: "messages db' = messages db1 @ n2" "c' = c1 + length n2"
      "\<forall>r \<in> set n2. lastMessageTime < m_timestamp r \<and> m_chat_jid r = jid" by blast
  show ?case
    by (rule exI [of _ "n1 @ n2"]) (use n1 n2 in auto)
qed

text \<open>
  What a run of \<open>syncChatMessages\<close> does beyond that test: it makes at most one fetch,
  asking for 20 messages of the chat, leaves the stored rows as they were, and adds
  only rows of that chat whose timestamp is strictly greater than the high-water mark;
  the count it returns is the number of rows added.
\<close>

theorem syncChatMessages_window:
  assumes "syncChatMessages up now_ms jid lastSyncTime st = (n, st')"
  shows "(fetches st' = fetches st \<or> fetches st' = fetches st @ [(jid, 20)]) \<and>
         (\<exists>new. messages (store st') = messages (store st) @ new \<and> n = length new \<and>
            (\<forall>r \<in> set new. high_water_mark (store st) jid lastSyncTime < m_timestamp r \<and>
                            m_chat_jid r = jid))"
proof (cases "\<not> sock st \<or> baileysConnectionStatus st \<noteq> Some ''open'' \<or>
              now_ms - high_water_mark (store st) jid lastSyncTime < 60000")
  case True
  then have "n = 0" "st' = st"
    using assms by (auto simp: syncChatMessages_def high_water_mark_def Let_def split: if_splits)
  then show ?thesis by simp
next
  case False
  let ?st1 = "st\<lparr>fetches := fetches st @ [(jid, 20)]\<rparr>"
  let ?hw = "high_water_mark (store st) jid lastSyncTime"
  show ?thesis
  proof (cases "up (length (fetches st)) jid 20")
    case FetchThrows
    then have "n = 0" "st' = ?st1"
      using assms False by (auto simp: syncChatMessages_def high_water_mark_def Let_def split: if_splits)
    then show ?thesis using False by simp
  next
    case FetchNothing
    then have "n = 0" "st' = ?st1"
      using assms False by (auto simp: syncChatMessages_def high_water_mark_def Let_def split: if_splits)
    then show ?thesis using False by simp
  next
    case (FetchMessages ms)
    obtain c db where synced: "fold (sync_message (now_ms div 1000) jid ?hw) ms (0, store st) = (c, db)"
      by (cases "fold (sync_message (now_ms div 1000) jid ?hw) ms (0, store st)")
    then have res: "n = c" "st' = ?st1\<lparr>store := db\<rparr>"
      using assms False FetchMessages
      by (auto simp: syncChatMessages_def high_water_mark_def Let_def split: if_splits)
    from fold_sync_message_newer [OF synced] obtain new where
      "messages db = messages (store st) @ new" "c = length new"
      "\<forall>r \<in> set new. ?hw < m_timestamp r \<and> m_chat_jid r = jid" by auto
    then show ?thesis
      using res False by (intro conjI) auto
  qed
qed

lemma news_eval:
  "fst (syncChatMessages news_upstream 10000000 ''alice'' 0 old_chat_backend) = 1 \<and>
   fetches (snd (syncChatMessages news_upstream 10000000 ''alice'' 0 old_chat_backend)) = [(''alice'', 20)] \<and>
   map m_id (messages (store (snd (syncChatMessages news_upstream 10000000 ''alice'' 0 old_chat_backend))))
     = [''m1'', ''new''] \<and>
   high_water_mark (store old_chat_backend) ''alice'' 0 = 1000"
  by code_simp

theorem syncChatMessages_window_witness:
  "fst (syncChatMessages news_upstream 10000000 ''alice'' 0 old_chat_backend) = 1 \<and>
   fetches (snd (syncChatMessages news_upstream 10000000 ''alice'' 0 old_chat_backend)) = [(''alice'', 20)] \<and>
   map m_id (messages (store (snd (syncChatMessages news_upstream 10000000 ''alice'' 0 old_chat_backend))))
     = [''m1'', ''new''] \<and>
   high_water_mark (store old_chat_backend) ''alice'' 0 = 1000"
  using syncChatMessages_window
    [of news_upstream 10000000 "''alice''" 0 old_chat_backend
        "fst (syncChatMessages news_upstream 10000000 ''alice'' 0 old_chat_backend)"
        "snd (syncChatMessages news_upstream 10000000 ''alice'' 0 old_chat_backend)"]
    news_eval
  by simp

end
